theory Spec2Isabelle
  imports Complex_Main
begin

unbundle bit_operations_syntax

section \<open>Python programs that drive a library\<close>

text \<open>
  The notebooks of the repository are Python scripts whose every computation is a call
  into TensorFlow/Keras or OpenCV. A function of the repository is modelled as a program
  in a state-and-exception monad: the state is the library's own state (weights, random
  generator, camera, windows, files) together with a log of the library calls made so
  far; an exception is a value. The library itself is a parameter of every definition.
\<close>

text \<open>
  Literal Python arguments of a library call, as they are written in the source.
  \<open>Kw\<close> is a keyword argument; \<open>Operand i\<close> stands, inside a tuple or list, for the
  \<open>i\<close>-th library object passed to the call.
\<close>

datatype arg =
    PyInt int
  | PyFloat real
  | PyStr string
  | PyBool bool
  | PyTuple "arg list"
  | PyList "arg list"
  | Kw string arg
  | Operand nat
  | PyNone

text \<open>
  One entry of the call log: a library call that returned, or a library call that raised.
  The name is the callee as the source writes it; the arguments are the literal ones.
\<close>

datatype 'e event =
    Called string "arg list"
  | Raised string "arg list" 'e

text \<open>
  Exceptions: the ones a library call raises (their type \<open>'e\<close> belongs to the library),
  and the ones the Python interpreter raises itself in the code of the repository.
\<close>

datatype 'e exn =
    LibraryError 'e
  | UnboundLocalError string
  | IndexError
  | ValueError

record ('s, 'e) world =
  trace :: "'e event list"
  store :: 's

type_synonym ('s, 'e, 'a) libfn = "'s \<Rightarrow> ('e + 'a) \<times> 's"

type_synonym ('s, 'e, 'a) py = "('s, 'e) world \<Rightarrow> ('e exn + 'a) \<times> ('s, 'e) world"

definition ret :: "'a \<Rightarrow> ('s, 'e, 'a) py" where
  "ret x = (\<lambda>w. (Inr x, w))"

definition raise :: "'e exn \<Rightarrow> ('s, 'e, 'a) py" where
  "raise x = (\<lambda>w. (Inl x, w))"

text \<open>
  Sequencing of two statements. The source has no \<open>try\<close> statement, so this is the
  only way two statements are combined: an exception of the first skips the second.
\<close>

definition seq :: "('s, 'e, 'a) py \<Rightarrow> ('a \<Rightarrow> ('s, 'e, 'b) py) \<Rightarrow> ('s, 'e, 'b) py" where
  "seq m f = (\<lambda>w. case m w of (Inl x, w') \<Rightarrow> (Inl x, w') | (Inr a, w') \<Rightarrow> f a w')"

text \<open>A library call: it runs on the library's state and is entered in the log.\<close>

definition call :: "string \<Rightarrow> arg list \<Rightarrow> ('s, 'e, 'a) libfn \<Rightarrow> ('s, 'e, 'a) py" where
  "call nm args f = (\<lambda>w. case f (store w) of
       (Inl e, s') \<Rightarrow> (Inl (LibraryError e), \<lparr>trace = trace w @ [Raised nm args e], store = s'\<rparr>)
     | (Inr a, s') \<Rightarrow> (Inr a, \<lparr>trace = trace w @ [Called nm args], store = s'\<rparr>))"

text \<open>\<^verbatim>\<open>for x in xs: body\<close>, with the variables the body assigns passed along.\<close>

fun for_in :: "'x list \<Rightarrow> ('x \<Rightarrow> 'a \<Rightarrow> ('s, 'e, 'a) py) \<Rightarrow> 'a \<Rightarrow> ('s, 'e, 'a) py" where
  "for_in [] body acc = ret acc"
| "for_in (x # xs) body acc = seq (body x acc) (for_in xs body)"

text \<open>\<^verbatim>\<open>xs[0]\<close> on a Python list or tuple.\<close>

definition index0 :: "'a list \<Rightarrow> ('s, 'e, 'a) py" where
  "index0 xs = (case xs of [] \<Rightarrow> raise IndexError | x # _ \<Rightarrow> ret x)"

text \<open>\<^verbatim>\<open>a, b, c, d = xs\<close>: the number of elements must be four.\<close>

definition unpack4 :: "'a list \<Rightarrow> ('s, 'e, 'a \<times> 'a \<times> 'a \<times> 'a) py" where
  "unpack4 xs = (case xs of [a, b, c, d] \<Rightarrow> ret (a, b, c, d) | _ \<Rightarrow> raise ValueError)"

text \<open>\<^verbatim>\<open>range(n)\<close>: empty when \<open>n\<close> is zero or negative.\<close>

definition py_range :: "int \<Rightarrow> int list" where
  "py_range n = map int [0 ..< nat n]"

text \<open>
  \<^verbatim>\<open>while True: body\<close>, where the body says whether it ended in \<^verbatim>\<open>break\<close>. The loop
  need not end, so the model counts iterations down from a bound and has no result
  (\<open>None\<close>) when the bound is used up.
\<close>

type_synonym ('s, 'e, 'a) py_opt =
  "('s, 'e) world \<Rightarrow> (('e exn + 'a) \<times> ('s, 'e) world) option"

fun while_true :: "nat \<Rightarrow> ('s, 'e, bool) py \<Rightarrow> ('s, 'e, unit) py_opt" where
  "while_true 0 body w = None"
| "while_true (Suc n) body w =
     (case body w of
        (Inl x, w') \<Rightarrow> Some (Inl x, w')
      | (Inr stop, w') \<Rightarrow> if stop then Some (Inr (), w') else while_true n body w')"

text \<open>Statements after, and before, a loop that may not end.\<close>

definition opt_then :: "('s, 'e, 'a) py_opt \<Rightarrow> ('a \<Rightarrow> ('s, 'e, 'b) py) \<Rightarrow> ('s, 'e, 'b) py_opt" where
  "opt_then m f = (\<lambda>w. case m w of
       None \<Rightarrow> None
     | Some (Inl x, w') \<Rightarrow> Some (Inl x, w')
     | Some (Inr a, w') \<Rightarrow> Some (f a w'))"

definition then_opt :: "('s, 'e, 'a) py \<Rightarrow> ('a \<Rightarrow> ('s, 'e, 'b) py_opt) \<Rightarrow> ('s, 'e, 'b) py_opt" where
  "then_opt m f = (\<lambda>w. case m w of
       (Inl x, w') \<Rightarrow> Some (Inl x, w')
     | (Inr a, w') \<Rightarrow> f a w')"

subsection \<open>The interface of the numerical libraries\<close>

text \<open>
  TensorFlow, Keras, NumPy and scikit-learn are used through functions and methods that
  take library objects (tensors, arrays, layers, models, optimizers, tapes) and literal
  arguments, and return one object or a Python list of objects. The objects are opaque
  to the code of the repository. \<open>print\<close> and the notebook's \<open>display\<close> are calls
  of this kind too.
\<close>

record ('o, 's, 'e) tf_api =
  tf_fn :: "string \<Rightarrow> 'o list \<Rightarrow> arg list \<Rightarrow> ('s, 'e, 'o) libfn"
  tf_fn_list :: "string \<Rightarrow> 'o list \<Rightarrow> arg list \<Rightarrow> ('s, 'e, 'o list) libfn"

definition tf_call :: "('o, 's, 'e) tf_api \<Rightarrow> string \<Rightarrow> 'o list \<Rightarrow> arg list \<Rightarrow> ('s, 'e, 'o) py" where
  "tf_call tf nm objs args = call nm args (tf_fn tf nm objs args)"

definition tf_call_list ::
  "('o, 's, 'e) tf_api \<Rightarrow> string \<Rightarrow> 'o list \<Rightarrow> arg list \<Rightarrow> ('s, 'e, 'o list) py" where
  "tf_call_list tf nm objs args = call nm args (tf_fn_list tf nm objs args)"

text \<open>
  The symbolic library: every call succeeds and returns a term that records the number
  of the call, its name and its operands. Running a program on it shows which calls
  produce the program's result. A gradient call (tape, target, sources) returns one
  element for each source, a split of the data and a dataset loader return four arrays,
  and any other call that returns a list (the variables or layers of a model) returns
  two elements.
\<close>

datatype sym =
    Var string
  | Res int string "sym list" "arg list"
  | Elem sym nat

definition sym_length :: "string \<Rightarrow> sym list \<Rightarrow> nat" where
  "sym_length nm objs =
     (if nm = ''tape.gradient'' \<or> nm = ''gp_tape.gradient'' then length objs - 2
      else if nm = ''train_test_split'' \<or> nm = ''fashion_mnist.load_data'' then 4
      else 2)"

definition sym_tf :: "(sym, int, unit) tf_api" where
  "sym_tf = \<lparr>
     tf_fn = (\<lambda>nm objs args n. (Inr (Res n nm objs args), n + 1)),
     tf_fn_list = (\<lambda>nm objs args n.
        (Inr (map (Elem (Res n nm objs args)) [0 ..< sym_length nm objs]), n + 1)) \<rparr>"

definition w0 :: "(int, unit) world" where
  "w0 = \<lparr>trace = [], store = 0\<rparr>"

section \<open>The baseline-classifier notebook\<close>

text \<open>One classifier: constructed, fitted on the training data, applied to the test data.\<close>

definition dummy_fit :: "('o, 's, 'e) tf_api \<Rightarrow> string \<Rightarrow> 'o \<Rightarrow> 'o \<Rightarrow> ('s, 'e, 'o \<times> 'o) py" where
  "dummy_fit tf strategy X_train y_train =
     seq (tf_call tf ''DummyClassifier'' []
            [Kw ''strategy'' (PyStr strategy), Kw ''random_state'' (PyInt 42)])
     (\<lambda>dummy_clf. seq (tf_call tf ''dummy_clf.fit'' [dummy_clf, X_train, y_train] [])
     (\<lambda>fitted. ret (dummy_clf, fitted)))"

definition dummy_score :: "('o, 's, 'e) tf_api \<Rightarrow> 'o \<Rightarrow> 'o \<Rightarrow> 'o \<Rightarrow> ('s, 'e, 'o \<times> 'o) py" where
  "dummy_score tf dummy_clf X_test y_test =
     seq (tf_call tf ''dummy_clf.predict'' [dummy_clf, X_test] [])
     (\<lambda>y_pred. seq (tf_call tf ''accuracy_score'' [y_test, y_pred] [])
     (\<lambda>accuracy. ret (y_pred, accuracy)))"

definition baseline_notebook :: "('o, 's, 'e) tf_api \<Rightarrow> ('s, 'e, unit) py" where
  "baseline_notebook tf =
     seq (tf_call tf ''load_breast_cancer'' [] [])
     (\<lambda>data. seq (tf_call tf ''data.data'' [data] [])
     (\<lambda>X. seq (tf_call tf ''data.target'' [data] [])
     (\<lambda>y. seq (tf_call_list tf ''train_test_split'' [X, y]
                  [Kw ''test_size'' (PyFloat 0.2), Kw ''random_state'' (PyInt 42)])
     (\<lambda>parts. seq (unpack4 parts)
     (\<lambda>(X_train, X_test, y_train, y_test). seq (dummy_fit tf ''stratified'' X_train y_train)
     (\<lambda>(dummy_clf, fitted). seq (tf_call tf ''display'' [fitted] [])
     (\<lambda>_. seq (dummy_score tf dummy_clf X_test y_test)
     (\<lambda>(y_pred, accuracy). seq (tf_call tf ''classification_report'' [y_test, y_pred] [])
     (\<lambda>report. seq (tf_call tf ''print'' [accuracy] [PyStr ''Baseline Classifier Accuracy:''])
     (\<lambda>_. seq (tf_call tf ''print'' [] [PyStr ''Classification Report:''])
     (\<lambda>_. seq (tf_call tf ''print'' [report] [])
     (\<lambda>_. seq (dummy_fit tf ''most_frequent'' X_train y_train)
     (\<lambda>(dummy_clf, fitted). seq (dummy_score tf dummy_clf X_test y_test)
     (\<lambda>(y_pred, accuracy). seq (tf_call tf ''display'' [accuracy] [])
     (\<lambda>_. seq (dummy_fit tf ''uniform'' X_train y_train)
     (\<lambda>(dummy_clf, fitted). seq (dummy_score tf dummy_clf X_test y_test)
     (\<lambda>(y_pred, accuracy). seq (tf_call tf ''print'' [accuracy] [])
     (\<lambda>_. ret ()))))))))))))))))))"

section \<open>The U-Net notebook\<close>

definition conv2d_block ::
  "('o, 's, 'e) tf_api \<Rightarrow> 'o \<Rightarrow> arg \<Rightarrow> arg \<Rightarrow> ('s, 'e, 'o) py" where
  "conv2d_block tf input_tensor n_filters kernel_size =
     for_in (py_range 2) (\<lambda>i x.
       seq (tf_call tf ''tf.keras.layers.Conv2D'' []
              [Kw ''filters'' n_filters, Kw ''kernel_size'' (PyTuple [kernel_size, kernel_size]),
               Kw ''kernel_initializer'' (PyStr ''he_normal''), Kw ''padding'' (PyStr ''same'')])
       (\<lambda>conv. seq (tf_call tf ''__call__'' [conv, x] [])
       (\<lambda>x. seq (tf_call tf ''tf.keras.layers.Activation'' [] [PyStr ''relu''])
       (\<lambda>act. tf_call tf ''__call__'' [act, x] []))))
     input_tensor"

definition encoder_block ::
  "('o, 's, 'e) tf_api \<Rightarrow> 'o \<Rightarrow> arg \<Rightarrow> arg \<Rightarrow> arg \<Rightarrow> ('s, 'e, 'o \<times> 'o) py" where
  "encoder_block tf inputs n_filters pool_size dropout =
     seq (conv2d_block tf inputs n_filters (PyInt 3))
     (\<lambda>f. seq (tf_call tf ''tf.keras.layers.MaxPooling2D'' [] [Kw ''pool_size'' pool_size])
     (\<lambda>pool. seq (tf_call tf ''__call__'' [pool, f] [])
     (\<lambda>p. seq (tf_call tf ''tf.keras.layers.Dropout'' [] [PyFloat 0.3])
     (\<lambda>drop. seq (tf_call tf ''__call__'' [drop, p] [])
     (\<lambda>p. ret (f, p))))))"

definition encoder ::
  "('o, 's, 'e) tf_api \<Rightarrow> 'o \<Rightarrow> ('s, 'e, 'o \<times> ('o \<times> 'o \<times> 'o \<times> 'o)) py" where
  "encoder tf inputs =
     seq (encoder_block tf inputs (PyInt 64) (PyTuple [PyInt 2, PyInt 2]) (PyFloat 0.3))
     (\<lambda>(f1, p1). seq (encoder_block tf p1 (PyInt 128) (PyTuple [PyInt 2, PyInt 2]) (PyFloat 0.3))
     (\<lambda>(f2, p2). seq (encoder_block tf p2 (PyInt 256) (PyTuple [PyInt 2, PyInt 2]) (PyFloat 0.3))
     (\<lambda>(f3, p3). seq (encoder_block tf p3 (PyInt 512) (PyTuple [PyInt 2, PyInt 2]) (PyFloat 0.3))
     (\<lambda>(f4, p4). ret (p4, (f1, f2, f3, f4))))))"

definition bottleneck :: "('o, 's, 'e) tf_api \<Rightarrow> 'o \<Rightarrow> ('s, 'e, 'o) py" where
  "bottleneck tf inputs = conv2d_block tf inputs (PyInt 1024) (PyInt 3)"

definition decoder_block ::
  "('o, 's, 'e) tf_api \<Rightarrow> 'o \<Rightarrow> 'o \<Rightarrow> arg \<Rightarrow> arg \<Rightarrow> arg \<Rightarrow> arg \<Rightarrow> ('s, 'e, 'o) py" where
  "decoder_block tf inputs conv_output n_filters kernel_size strides dropout =
     seq (tf_call tf ''tf.keras.layers.Conv2DTranspose'' []
            [n_filters, kernel_size, Kw ''strides'' strides, Kw ''padding'' (PyStr ''same'')])
     (\<lambda>up. seq (tf_call tf ''__call__'' [up, inputs] [])
     (\<lambda>u. seq (tf_call tf ''tf.keras.layers.concatenate'' [u, conv_output] [])
     (\<lambda>c. seq (tf_call tf ''tf.keras.layers.Dropout'' [] [dropout])
     (\<lambda>drop. seq (tf_call tf ''__call__'' [drop, c] [])
     (\<lambda>c. conv2d_block tf c n_filters (PyInt 3))))))"

definition decoder ::
  "('o, 's, 'e) tf_api \<Rightarrow> 'o \<Rightarrow> 'o \<times> 'o \<times> 'o \<times> 'o \<Rightarrow> arg \<Rightarrow> ('s, 'e, 'o) py" where
  "decoder tf inputs convs output_channels = (case convs of (f1, f2, f3, f4) \<Rightarrow>
     seq (decoder_block tf inputs f4 (PyInt 512) (PyTuple [PyInt 3, PyInt 3])
            (PyTuple [PyInt 2, PyInt 2]) (PyFloat 0.3))
     (\<lambda>c6. seq (decoder_block tf c6 f3 (PyInt 256) (PyTuple [PyInt 3, PyInt 3])
                   (PyTuple [PyInt 2, PyInt 2]) (PyFloat 0.3))
     (\<lambda>c7. seq (decoder_block tf c7 f2 (PyInt 128) (PyTuple [PyInt 3, PyInt 3])
                   (PyTuple [PyInt 2, PyInt 2]) (PyFloat 0.3))
     (\<lambda>c8. seq (decoder_block tf c8 f1 (PyInt 64) (PyTuple [PyInt 3, PyInt 3])
                   (PyTuple [PyInt 2, PyInt 2]) (PyFloat 0.3))
     (\<lambda>c9. seq (tf_call tf ''tf.keras.layers.Conv2D'' []
                   [output_channels, PyTuple [PyInt 1, PyInt 1], Kw ''activation'' (PyStr ''softmax'')])
     (\<lambda>conv. tf_call tf ''__call__'' [conv, c9] []))))))"

definition unet :: "('o, 's, 'e) tf_api \<Rightarrow> ('s, 'e, 'o) py" where
  "unet tf =
     seq (tf_call tf ''tf.keras.layers.Input'' []
            [Kw ''shape'' (PyTuple [PyInt 128, PyInt 128, PyInt 3])])
     (\<lambda>inputs. seq (encoder tf inputs)
     (\<lambda>(encoder_output, convs). seq (bottleneck tf encoder_output)
     (\<lambda>bottle_neck. seq (decoder tf bottle_neck convs (PyInt 3))
     (\<lambda>outputs. tf_call tf ''tf.keras.Model'' [inputs, outputs] []))))"

text \<open>The notebook: the model is built and its summary is printed.\<close>

definition unet_notebook :: "('o, 's, 'e) tf_api \<Rightarrow> ('s, 'e, 'o) py" where
  "unet_notebook tf = seq (unet tf) (\<lambda>model. tf_call tf ''model.summary'' [model] [])"

section \<open>The ResNet notebook\<close>

text \<open>
  A \<open>Residual\<close> object: the Keras model that \<open>super().__init__()\<close> sets up, and the
  attributes \<open>__init__\<close> assigns; \<open>conv3\<close> is \<open>None\<close> unless \<open>use_1x1conv\<close>.
\<close>

record 'o residual =
  keras_model :: 'o
  conv1 :: 'o
  conv2 :: 'o
  conv3 :: "'o option"
  bn1 :: 'o
  bn2 :: 'o

definition Residual_init ::
  "('o, 's, 'e) tf_api \<Rightarrow> arg \<Rightarrow> bool \<Rightarrow> arg \<Rightarrow> ('s, 'e, 'o residual) py" where
  "Residual_init tf num_channels use_1x1conv strides =
     seq (tf_call tf ''super().__init__'' [] [])
     (\<lambda>km. seq (tf_call tf ''tf.keras.layers.Conv2D'' []
                  [num_channels, Kw ''padding'' (PyStr ''same''), Kw ''kernel_size'' (PyInt 3),
                   Kw ''strides'' strides])
     (\<lambda>c1. seq (tf_call tf ''tf.keras.layers.Conv2D'' []
                  [num_channels, Kw ''kernel_size'' (PyInt 3), Kw ''padding'' (PyStr ''same'')])
     (\<lambda>c2. seq (if use_1x1conv
                 then seq (tf_call tf ''tf.keras.layers.Conv2D'' []
                             [num_channels, Kw ''kernel_size'' (PyInt 1), Kw ''strides'' strides])
                          (\<lambda>c3. ret (Some c3))
                 else ret None)
     (\<lambda>c3. seq (tf_call tf ''tf.keras.layers.BatchNormalization'' [] [])
     (\<lambda>b1. seq (tf_call tf ''tf.keras.layers.BatchNormalization'' [] [])
     (\<lambda>b2. ret \<lparr>keras_model = km, conv1 = c1, conv2 = c2, conv3 = c3, bn1 = b1, bn2 = b2\<rparr>))))))"

text \<open>\<open>Y += X\<close> on tensors, which have no in-place addition, is \<open>Y = Y.__add__(X)\<close>.\<close>

definition Residual_call ::
  "('o, 's, 'e) tf_api \<Rightarrow> 'o residual \<Rightarrow> 'o \<Rightarrow> ('s, 'e, 'o) py" where
  "Residual_call tf self X =
     seq (tf_call tf ''__call__'' [conv1 self, X] [])
     (\<lambda>a. seq (tf_call tf ''__call__'' [bn1 self, a] [])
     (\<lambda>b. seq (tf_call tf ''tf.keras.activations.relu'' [b] [])
     (\<lambda>Y. seq (tf_call tf ''__call__'' [conv2 self, Y] [])
     (\<lambda>c. seq (tf_call tf ''__call__'' [bn2 self, c] [])
     (\<lambda>Y. seq (case conv3 self of None \<Rightarrow> ret X
                                  | Some c3 \<Rightarrow> tf_call tf ''__call__'' [c3, X] [])
     (\<lambda>X. seq (tf_call tf ''__add__'' [Y, X] [])
     (\<lambda>Y. tf_call tf ''tf.keras.activations.relu'' [Y] [])))))))"

text \<open>\<^verbatim>\<open>Residual(num_channels, use_1x1conv, strides)(X)\<close>: build the block, then call it.\<close>

definition Residual_block ::
  "('o, 's, 'e) tf_api \<Rightarrow> arg \<Rightarrow> bool \<Rightarrow> arg \<Rightarrow> 'o \<Rightarrow> ('s, 'e, 'o) py" where
  "Residual_block tf num_channels use_1x1conv strides X =
     seq (Residual_init tf num_channels use_1x1conv strides) (\<lambda>blk. Residual_call tf blk X)"

text \<open>The class \<open>ResNet\<close>: its first stage, a stage of residual blocks, and \<open>__init__\<close>.\<close>

definition ResNet_b1 :: "('o, 's, 'e) tf_api \<Rightarrow> ('s, 'e, 'o) py" where
  "ResNet_b1 tf =
     seq (tf_call tf ''tf.keras.layers.Conv2D'' []
            [PyInt 64, Kw ''kernel_size'' (PyInt 7), Kw ''strides'' (PyInt 2),
             Kw ''padding'' (PyStr ''same'')])
     (\<lambda>conv. seq (tf_call tf ''tf.keras.layers.BatchNormalization'' [] [])
     (\<lambda>bn. seq (tf_call tf ''tf.keras.layers.Activation'' [] [PyStr ''relu''])
     (\<lambda>act. seq (tf_call tf ''tf.keras.layers.MaxPool2D'' []
                    [Kw ''pool_size'' (PyInt 3), Kw ''strides'' (PyInt 2),
                     Kw ''padding'' (PyStr ''same'')])
     (\<lambda>pool. tf_call tf ''tf.keras.models.Sequential'' [conv, bn, act, pool] []))))"

definition ResNet_block ::
  "('o, 's, 'e) tf_api \<Rightarrow> int \<Rightarrow> arg \<Rightarrow> bool \<Rightarrow> ('s, 'e, 'o) py" where
  "ResNet_block tf num_residuals num_channels first_block =
     seq (tf_call tf ''tf.keras.models.Sequential'' [] [])
     (\<lambda>blk. seq (for_in (py_range num_residuals)
                    (\<lambda>i _. seq (if i = 0 \<and> \<not> first_block
                                  then Residual_init tf num_channels True (PyInt 2)
                                  else Residual_init tf num_channels False (PyInt 1))
                             (\<lambda>r. seq (tf_call tf ''blk.add'' [blk, keras_model r] [])
                             (\<lambda>_. ret ())))
                    ())
     (\<lambda>_. ret blk))"

text \<open>\<^verbatim>\<open>enumerate(xs)\<close>\<close>

definition enumerate_list :: "'a list \<Rightarrow> (nat \<times> 'a) list" where
  "enumerate_list xs = zip [0 ..< length xs] xs"

definition ResNet_init ::
  "('o, 's, 'e) tf_api \<Rightarrow> (int \<times> arg) list \<Rightarrow> arg \<Rightarrow> arg \<Rightarrow> ('s, 'e, 'o \<times> 'o) py" where
  "ResNet_init tf arch lr num_classes =
     seq (tf_call tf ''super(ResNet, self).__init__'' [] [])
     (\<lambda>self. seq (tf_call tf ''self.save_hyperparameters'' [self] [])
     (\<lambda>_. seq (ResNet_b1 tf)
     (\<lambda>b1. seq (tf_call tf ''tf.keras.models.Sequential'' [b1] [])
     (\<lambda>net. seq (for_in (enumerate_list arch)
                    (\<lambda>(i, num_residuals, num_channels) _.
                        seq (ResNet_block tf num_residuals num_channels (i = 0))
                        (\<lambda>blk. seq (tf_call tf ''self.net.add'' [net, blk] [])
                        (\<lambda>_. ret ())))
                    ())
     (\<lambda>_. seq (tf_call tf ''tf.keras.layers.GlobalAvgPool2D'' [] [])
     (\<lambda>pool. seq (tf_call tf ''tf.keras.layers.Dense'' [] [Kw ''units'' num_classes])
     (\<lambda>dense. seq (tf_call tf ''tf.keras.models.Sequential'' [pool, dense] [])
     (\<lambda>head. seq (tf_call tf ''self.net.add'' [net, head] [])
     (\<lambda>_. ret (self, net))))))))))"

definition ResNet18_init :: "('o, 's, 'e) tf_api \<Rightarrow> arg \<Rightarrow> arg \<Rightarrow> ('s, 'e, 'o \<times> 'o) py" where
  "ResNet18_init tf lr num_classes =
     ResNet_init tf [(2, PyInt 64), (2, PyInt 128), (2, PyInt 256), (2, PyInt 512)] lr num_classes"

definition add_layer :: "('o, 's, 'e) tf_api \<Rightarrow> 'o \<Rightarrow> string \<Rightarrow> arg list \<Rightarrow> ('s, 'e, 'o) py" where
  "add_layer tf resnetModel cls args =
     seq (tf_call tf cls [] args)
     (\<lambda>layer. tf_call tf ''resnetModel.add'' [resnetModel, layer] [])"

definition createResNetModel :: "('o, 's, 'e) tf_api \<Rightarrow> ('s, 'e, 'o) py" where
  "createResNetModel tf =
     seq (tf_call tf ''tf.keras.applications.ResNet101'' []
            [Kw ''include_top'' (PyBool False), Kw ''weights'' PyNone,
             Kw ''input_shape'' (PyTuple [PyInt 32, PyInt 32, PyInt 3])])
     (\<lambda>pretrainedModel. seq (tf_call_list tf ''pretrainedModel.layers'' [pretrainedModel] [])
     (\<lambda>ls. seq (for_in ls (\<lambda>resnetLayer _.
                    seq (tf_call tf ''resnetLayer.trainable = True'' [resnetLayer] [])
                        (\<lambda>_. ret ())) ())
     (\<lambda>_. seq (tf_call tf ''tf.keras.models.Sequential'' [] [])
     (\<lambda>resnetModel. seq (tf_call tf ''resnetModel.add'' [resnetModel, pretrainedModel] [])
     (\<lambda>_. seq (add_layer tf resnetModel ''tf.keras.layers.Flatten'' [])
     (\<lambda>_. seq (add_layer tf resnetModel ''tf.keras.layers.Dense''
                 [PyInt 2048, Kw ''activation'' (PyStr ''relu'')])
     (\<lambda>_. seq (add_layer tf resnetModel ''tf.keras.layers.Dropout'' [PyFloat 0.5])
     (\<lambda>_. seq (add_layer tf resnetModel ''tf.keras.layers.Dense''
                 [PyInt 1024, Kw ''activation'' (PyStr ''relu'')])
     (\<lambda>_. seq (add_layer tf resnetModel ''tf.keras.layers.Dropout'' [PyFloat 0.5])
     (\<lambda>_. seq (add_layer tf resnetModel ''tf.keras.layers.Dense''
                 [PyInt 512, Kw ''activation'' (PyStr ''relu'')])
     (\<lambda>_. seq (add_layer tf resnetModel ''tf.keras.layers.Dropout'' [PyFloat 0.5])
     (\<lambda>_. seq (add_layer tf resnetModel ''tf.keras.layers.Dense''
                 [PyInt 10, Kw ''activation'' (PyStr ''softmax'')])
     (\<lambda>_. seq (tf_call tf ''resnetModel.summary'' [resnetModel] [])
     (\<lambda>_. ret resnetModel))))))))))))))"

text \<open>
  The notebook, cell by cell. A cell that ends in an expression shows its value, which
  is the call \<open>display\<close>.
\<close>

definition resnet_notebook :: "('o, 's, 'e) tf_api \<Rightarrow> ('s, 'e, unit) py" where
  "resnet_notebook tf =
     seq (Residual_init tf (PyInt 3) False (PyInt 1))
     (\<lambda>blk. seq (tf_call tf ''tf.random.normal'' [] [PyTuple [PyInt 4, PyInt 6, PyInt 6, PyInt 3]])
     (\<lambda>X. seq (Residual_call tf blk X)
     (\<lambda>Y. seq (tf_call tf ''Y.shape'' [Y] [])
     (\<lambda>shp. seq (tf_call tf ''display'' [shp] [])
     (\<lambda>_. seq (Residual_init tf (PyInt 6) True (PyInt 2))
     (\<lambda>blk. seq (Residual_call tf blk X)
     (\<lambda>Y. seq (tf_call tf ''Y.shape'' [Y] [])
     (\<lambda>shp. seq (tf_call tf ''display'' [shp] [])
     (\<lambda>_. seq (ResNet18_init tf (PyFloat 0.1) (PyInt 10))
     (\<lambda>(model, net). seq (tf_call tf ''layer_summary'' [model]
                             [PyTuple [PyInt 1, PyInt 96, PyInt 96, PyInt 1]])
     (\<lambda>_. seq (createResNetModel tf)
     (\<lambda>resnet101_model.
        seq (tf_call tf ''resnet101_model.compile'' [resnet101_model]
               [Kw ''optimizer'' (PyStr ''adam''),
                Kw ''loss'' (PyStr ''sparse_categorical_crossentropy''),
                Kw ''metrics'' (PyList [PyStr ''accuracy''])])
     (\<lambda>_. ret ())))))))))))))"

subsection \<open>The shapes Keras gives to the block's layers\<close>

text \<open>
  The library on shapes: a tensor is its shape (batch, height, width, channels), a layer
  is its class and the arguments it was constructed with. The output shapes are the ones
  the Keras documentation gives: a convolution with \<open>padding='same'\<close> maps a spatial
  extent \<open>h\<close> to \<open>\<lceil>h / strides\<rceil>\<close>, with \<open>padding='valid'\<close> (the default) to
  \<open>\<lfloor>(h - kernel_size) / strides\<rfloor> + 1\<close>; its channel count is the number of
  filters; batch normalisation and ReLU keep the shape; addition needs equal shapes
  up to broadcasting of extents that are 1.
\<close>

datatype kobj =
    Tensor "int list"
  | Layer string "arg list"
  | NoneObj

fun kwarg :: "string \<Rightarrow> arg list \<Rightarrow> arg option" where
  "kwarg k [] = None"
| "kwarg k (Kw k' v # as) = (if k = k' then Some v else kwarg k as)"
| "kwarg k (a # as) = kwarg k as"

definition int_kwarg :: "string \<Rightarrow> int \<Rightarrow> arg list \<Rightarrow> int option" where
  "int_kwarg k dflt as =
     (case kwarg k as of None \<Rightarrow> Some dflt | Some (PyInt i) \<Rightarrow> Some i | Some _ \<Rightarrow> None)"

definition conv_extent :: "bool \<Rightarrow> int \<Rightarrow> int \<Rightarrow> int \<Rightarrow> int option" where
  "conv_extent same k s h =
     (if same then Some ((h + s - 1) div s)
      else if h < k then None else Some ((h - k) div s + 1))"

definition conv2d_shape :: "arg list \<Rightarrow> int list \<Rightarrow> int list option" where
  "conv2d_shape cfg shp =
     (case (cfg, shp) of
        (PyInt filters # kws, [b, h, w, c]) \<Rightarrow>
          (case (int_kwarg ''kernel_size'' 0 kws, int_kwarg ''strides'' 1 kws, kwarg ''padding'' kws) of
             (Some k, Some s, pad) \<Rightarrow>
               if 0 < filters \<and> 0 < k \<and> 0 < s \<and> 0 < b \<and> 0 < h \<and> 0 < w \<and> 0 < c
                  \<and> (pad = None \<or> pad = Some (PyStr ''valid'') \<or> pad = Some (PyStr ''same''))
               then (case (conv_extent (pad = Some (PyStr ''same'')) k s h,
                           conv_extent (pad = Some (PyStr ''same'')) k s w) of
                       (Some h', Some w') \<Rightarrow> Some [b, h', w', filters]
                     | _ \<Rightarrow> None)
               else None
           | _ \<Rightarrow> None)
      | _ \<Rightarrow> None)"

fun broadcast :: "int list \<Rightarrow> int list \<Rightarrow> int list option" where
  "broadcast [] [] = Some []"
| "broadcast (a # as) (b # bs) =
     (case broadcast as bs of
        None \<Rightarrow> None
      | Some cs \<Rightarrow> if a = b then Some (a # cs) else if a = 1 then Some (b # cs)
                   else if b = 1 then Some (a # cs) else None)"
| "broadcast _ _ = None"

definition shape_fn :: "string \<Rightarrow> kobj list \<Rightarrow> arg list \<Rightarrow> kobj option" where
  "shape_fn nm objs args =
     (if nm = ''super().__init__'' then Some NoneObj
      else if nm = ''tf.keras.layers.Conv2D'' then Some (Layer ''Conv2D'' args)
      else if nm = ''tf.keras.layers.BatchNormalization'' then Some (Layer ''BatchNormalization'' args)
      else if nm = ''tf.keras.activations.relu'' then
        (case objs of [Tensor shp] \<Rightarrow> Some (Tensor shp) | _ \<Rightarrow> None)
      else if nm = ''__add__'' then
        (case objs of [Tensor a, Tensor b] \<Rightarrow> map_option Tensor (broadcast a b) | _ \<Rightarrow> None)
      else if nm = ''__call__'' then
        (case objs of
           [Layer cls cfg, Tensor shp] \<Rightarrow>
             if cls = ''Conv2D'' then map_option Tensor (conv2d_shape cfg shp)
             else if cls = ''BatchNormalization'' then Some (Tensor shp)
             else None
         | _ \<Rightarrow> None)
      else None)"

definition shape_tf :: "(kobj, unit, string) tf_api" where
  "shape_tf = \<lparr>
     tf_fn = (\<lambda>nm objs args u.
        (case shape_fn nm objs args of None \<Rightarrow> Inl ''ValueError'' | Some x \<Rightarrow> Inr x, u)),
     tf_fn_list = (\<lambda>nm objs args u. (Inl ''ValueError'', u)) \<rparr>"

section \<open>The WGAN-GP notebook\<close>

text \<open>
  \<^verbatim>\<open>train_images = (train_images - 127.5) / 127.5\<close> of the data-loading cell, and
  \<^verbatim>\<open>generated_images = (generated_images * 127.5) + 127.5\<close> of \<open>GANMonitor.on_epoch_end\<close>.
\<close>

definition normalize :: "('o, 's, 'e) tf_api \<Rightarrow> 'o \<Rightarrow> ('s, 'e, 'o) py" where
  "normalize tf train_images =
     seq (tf_call tf ''__sub__'' [train_images] [PyFloat 127.5])
     (\<lambda>d. tf_call tf ''__truediv__'' [d] [PyFloat 127.5])"

definition denormalize :: "('o, 's, 'e) tf_api \<Rightarrow> 'o \<Rightarrow> ('s, 'e, 'o) py" where
  "denormalize tf generated_images =
     seq (tf_call tf ''__mul__'' [generated_images] [PyFloat 127.5])
     (\<lambda>m. tf_call tf ''__add__'' [m] [PyFloat 127.5])"

text \<open>
  The attributes of a \<open>WGAN\<close> object after \<open>__init__\<close> and \<open>compile\<close>. The two loss
  functions are Python callables handed to \<open>compile\<close>.
\<close>

record ('o, 's, 'e) wgan =
  discriminator :: 'o
  generator :: 'o
  latent_dim :: int
  d_steps :: int
  gp_weight :: real
  d_optimizer :: 'o
  g_optimizer :: 'o
  d_loss_fn :: "'o \<Rightarrow> 'o \<Rightarrow> ('s, 'e, 'o) py"
  g_loss_fn :: "'o \<Rightarrow> ('s, 'e, 'o) py"

text \<open>
  \<open>WGAN.__init__\<close> followed by \<open>WGAN.compile\<close>. The keyword arguments
  \<open>discriminator_extra_steps\<close> and \<open>gp_weight\<close> may be left out and then are 3 and 10.0.
\<close>

definition WGAN_init_compile ::
  "('o, 's, 'e) tf_api \<Rightarrow> 'o \<Rightarrow> 'o \<Rightarrow> int \<Rightarrow> int option \<Rightarrow> real option
     \<Rightarrow> 'o \<Rightarrow> 'o \<Rightarrow> ('o \<Rightarrow> 'o \<Rightarrow> ('s, 'e, 'o) py) \<Rightarrow> ('o \<Rightarrow> ('s, 'e, 'o) py)
     \<Rightarrow> ('s, 'e, ('o, 's, 'e) wgan) py" where
  "WGAN_init_compile tf discriminator' generator' latent_dim' discriminator_extra_steps gp_weight'
       d_optimizer' g_optimizer' d_loss_fn' g_loss_fn' =
     seq (tf_call tf ''super(WGAN, self).__init__'' [] [])
     (\<lambda>_. seq (tf_call tf ''super(WGAN, self).compile'' [] [])
     (\<lambda>_. ret \<lparr>discriminator = discriminator', generator = generator', latent_dim = latent_dim',
              d_steps = (case discriminator_extra_steps of None \<Rightarrow> 3 | Some n \<Rightarrow> n),
              gp_weight = (case gp_weight' of None \<Rightarrow> 10 | Some g \<Rightarrow> g),
              d_optimizer = d_optimizer', g_optimizer = g_optimizer',
              d_loss_fn = d_loss_fn', g_loss_fn = g_loss_fn'\<rparr>))"

text \<open>
  The first three statements of \<open>gradient_penalty\<close>: the random coefficient and the
  image \<open>real_images + alpha * diff\<close>. The coefficient is drawn by \<open>tf.random.normal\<close>
  with mean 0.0 and standard deviation 1.0.
\<close>

definition interpolate ::
  "('o, 's, 'e) tf_api \<Rightarrow> 'o \<Rightarrow> 'o \<Rightarrow> 'o \<Rightarrow> ('s, 'e, 'o) py" where
  "interpolate tf batch_size real_images fake_images =
     seq (tf_call tf ''tf.random.normal'' [batch_size]
            [PyList [Operand 0, PyInt 1, PyInt 1, PyInt 1], PyFloat 0.0, PyFloat 1.0])
     (\<lambda>alpha. seq (tf_call tf ''__sub__'' [fake_images, real_images] [])
     (\<lambda>diff. seq (tf_call tf ''__mul__'' [alpha, diff] [])
     (\<lambda>prod. tf_call tf ''__add__'' [real_images, prod] [])))"

text \<open>
  A \<^verbatim>\<open>with tf.GradientTape() as tape\<close> block creates the tape; the calls inside the block
  are recorded by the library on it. Leaving the block ends the recording, which is the
  tape's own business and no call of the repository's code.
\<close>

definition gradient_penalty ::
  "('o, 's, 'e) tf_api \<Rightarrow> ('o, 's, 'e) wgan \<Rightarrow> 'o \<Rightarrow> 'o \<Rightarrow> 'o \<Rightarrow> ('s, 'e, 'o) py" where
  "gradient_penalty tf self batch_size real_images fake_images =
     seq (interpolate tf batch_size real_images fake_images)
     (\<lambda>interpolated. seq (tf_call tf ''tf.GradientTape'' [] [])
     (\<lambda>gp_tape. seq (tf_call tf ''gp_tape.watch'' [gp_tape, interpolated] [])
     (\<lambda>_. seq (tf_call tf ''self.discriminator'' [discriminator self, interpolated]
                  [Kw ''training'' (PyBool True)])
     (\<lambda>pred. seq (tf_call_list tf ''gp_tape.gradient'' [gp_tape, pred, interpolated] [])
     (\<lambda>gs. seq (index0 gs)
     (\<lambda>grads. seq (tf_call tf ''tf.square'' [grads] [])
     (\<lambda>sq. seq (tf_call tf ''tf.reduce_sum'' [sq] [Kw ''axis'' (PyList [PyInt 1, PyInt 2, PyInt 3])])
     (\<lambda>total. seq (tf_call tf ''tf.sqrt'' [total] [])
     (\<lambda>norm. seq (tf_call tf ''__sub__'' [norm] [PyFloat 1.0])
     (\<lambda>d. seq (tf_call tf ''__pow__'' [d] [PyInt 2])
     (\<lambda>p. tf_call tf ''tf.reduce_mean'' [p] [])))))))))))"

text \<open>The body of the \<^verbatim>\<open>for i in range(self.d_steps)\<close> loop; its value is \<open>d_loss\<close>.\<close>

definition discriminator_step ::
  "('o, 's, 'e) tf_api \<Rightarrow> ('o, 's, 'e) wgan \<Rightarrow> 'o \<Rightarrow> 'o \<Rightarrow> ('s, 'e, 'o) py" where
  "discriminator_step tf self batch_size real_images =
     seq (tf_call tf ''tf.random.normal'' [batch_size]
            [Kw ''shape'' (PyTuple [Operand 0, PyInt (latent_dim self)])])
     (\<lambda>random_latent_vectors. seq (tf_call tf ''tf.GradientTape'' [] [])
     (\<lambda>tape. seq (tf_call tf ''self.generator'' [generator self, random_latent_vectors]
                     [Kw ''training'' (PyBool True)])
     (\<lambda>fake_images. seq (tf_call tf ''self.discriminator'' [discriminator self, fake_images]
                            [Kw ''training'' (PyBool True)])
     (\<lambda>fake_logits. seq (tf_call tf ''self.discriminator'' [discriminator self, real_images]
                            [Kw ''training'' (PyBool True)])
     (\<lambda>real_logits. seq (d_loss_fn self real_logits fake_logits)
     (\<lambda>d_cost. seq (gradient_penalty tf self batch_size real_images fake_images)
     (\<lambda>gp. seq (tf_call tf ''__mul__'' [gp] [PyFloat (gp_weight self)])
     (\<lambda>weighted. seq (tf_call tf ''__add__'' [d_cost, weighted] [])
     (\<lambda>d_loss. seq (tf_call_list tf ''self.discriminator.trainable_variables'' [discriminator self] [])
     (\<lambda>vars. seq (tf_call_list tf ''tape.gradient'' (tape # d_loss # vars) [])
     (\<lambda>d_gradient. seq (tf_call_list tf ''self.discriminator.trainable_variables''
                           [discriminator self] [])
     (\<lambda>vars'. seq (tf_call tf ''self.d_optimizer.apply_gradients''
                      (d_optimizer self # concat (map (\<lambda>(g, v). [g, v]) (zip d_gradient vars'))) [])
     (\<lambda>_. ret d_loss)))))))))))))"

text \<open>The generator update that follows the loop; its value is \<open>g_loss\<close>.\<close>

definition generator_step ::
  "('o, 's, 'e) tf_api \<Rightarrow> ('o, 's, 'e) wgan \<Rightarrow> 'o \<Rightarrow> ('s, 'e, 'o) py" where
  "generator_step tf self batch_size =
     seq (tf_call tf ''tf.random.normal'' [batch_size]
            [Kw ''shape'' (PyTuple [Operand 0, PyInt (latent_dim self)])])
     (\<lambda>random_latent_vectors. seq (tf_call tf ''tf.GradientTape'' [] [])
     (\<lambda>tape. seq (tf_call tf ''self.generator'' [generator self, random_latent_vectors]
                     [Kw ''training'' (PyBool True)])
     (\<lambda>generated_images. seq (tf_call tf ''self.discriminator'' [discriminator self, generated_images]
                                 [Kw ''training'' (PyBool True)])
     (\<lambda>gen_img_logits. seq (g_loss_fn self gen_img_logits)
     (\<lambda>g_loss. seq (tf_call_list tf ''self.generator.trainable_variables'' [generator self] [])
     (\<lambda>vars. seq (tf_call_list tf ''tape.gradient'' (tape # g_loss # vars) [])
     (\<lambda>gen_gradient. seq (tf_call_list tf ''self.generator.trainable_variables'' [generator self] [])
     (\<lambda>vars'. seq (tf_call tf ''self.g_optimizer.apply_gradients''
                      (g_optimizer self # concat (map (\<lambda>(g, v). [g, v]) (zip gen_gradient vars'))) [])
     (\<lambda>_. ret g_loss)))))))))"

text \<open>
  The argument of \<open>train_step\<close> is a tensor or a tuple whose first component is the
  tensor.
\<close>

datatype 'o batch = Batch 'o | BatchTuple "'o list"

text \<open>
  \<open>train_step\<close>. The local variable \<open>d_loss\<close> is assigned only inside the loop: it is
  unbound (\<open>None\<close> here) until the first iteration has run, and reading it unbound in
  the \<open>return\<close> statement raises \<open>UnboundLocalError\<close>.
\<close>

definition train_step ::
  "('o, 's, 'e) tf_api \<Rightarrow> ('o, 's, 'e) wgan \<Rightarrow> 'o batch \<Rightarrow> ('s, 'e, (string \<times> 'o) list) py" where
  "train_step tf self data =
     seq (case data of Batch x \<Rightarrow> ret x | BatchTuple xs \<Rightarrow> index0 xs)
     (\<lambda>real_images. seq (tf_call tf ''tf.shape'' [real_images] [])
     (\<lambda>shape. seq (tf_call tf ''__getitem__'' [shape] [PyInt 0])
     (\<lambda>batch_size.
        seq (for_in (py_range (d_steps self))
               (\<lambda>i d_loss. seq (discriminator_step tf self batch_size real_images)
                                (\<lambda>d. ret (Some d)))
               None)
     (\<lambda>d_loss. seq (generator_step tf self batch_size)
     (\<lambda>g_loss. case d_loss of
                  None \<Rightarrow> raise (UnboundLocalError ''d_loss'')
                | Some d \<Rightarrow> ret [(''d_loss'', d), (''g_loss'', g_loss)])))))"

text \<open>The loss functions the notebook hands to \<open>compile\<close>.\<close>

definition discriminator_loss :: "('o, 's, 'e) tf_api \<Rightarrow> 'o \<Rightarrow> 'o \<Rightarrow> ('s, 'e, 'o) py" where
  "discriminator_loss tf real_img fake_img =
     seq (tf_call tf ''tf.reduce_mean'' [real_img] [])
     (\<lambda>real_loss. seq (tf_call tf ''tf.reduce_mean'' [fake_img] [])
     (\<lambda>fake_loss. tf_call tf ''__sub__'' [fake_loss, real_loss] []))"

definition generator_loss :: "('o, 's, 'e) tf_api \<Rightarrow> 'o \<Rightarrow> ('s, 'e, 'o) py" where
  "generator_loss tf fake_img =
     seq (tf_call tf ''tf.reduce_mean'' [fake_img] [])
     (\<lambda>m. tf_call tf ''__neg__'' [m] [])"

subsection \<open>The callback that saves generated images\<close>

text \<open>\<^verbatim>\<open>str(n)\<close> for an integer, as \<^verbatim>\<open>str.format\<close> writes it: decimal digits, a minus sign first
  when negative.\<close>

function str_nat :: "nat \<Rightarrow> string" where
  "str_nat n = (if n < 10 then [char_of (48 + n)]
                else str_nat (n div 10) @ [char_of (48 + n mod 10)])"
  by pat_completeness auto
termination
  by (relation "measure id") auto

declare str_nat.simps [simp del]

definition str_int :: "int \<Rightarrow> string" where
  "str_int i = (if i < 0 then CHR ''-'' # str_nat (nat (- i)) else str_nat (nat i))"

text \<open>\<^verbatim>\<open>"generated_img_{i}_{epoch}.png".format(i=i, epoch=epoch)\<close>\<close>

definition image_name :: "int \<Rightarrow> int \<Rightarrow> string" where
  "image_name i epoch = ''generated_img_'' @ str_int i @ ''_'' @ str_int epoch @ ''.png''"

record ganmonitor =
  num_img :: int
  monitor_latent_dim :: int

definition save_image :: "('o, 's, 'e) tf_api \<Rightarrow> 'o \<Rightarrow> int \<Rightarrow> int \<Rightarrow> ('s, 'e, unit) py" where
  "save_image tf generated_images epoch i =
     seq (tf_call tf ''__getitem__'' [generated_images] [PyInt i])
     (\<lambda>row. seq (tf_call tf ''numpy'' [row] [])
     (\<lambda>img. seq (tf_call tf ''keras.preprocessing.image.array_to_img'' [img] [])
     (\<lambda>img. seq (tf_call tf ''img.save'' [img] [PyStr (image_name i epoch)])
     (\<lambda>_. ret ()))))"

definition on_epoch_end ::
  "('o, 's, 'e) tf_api \<Rightarrow> ganmonitor \<Rightarrow> ('o, 's, 'e) wgan \<Rightarrow> int \<Rightarrow> ('s, 'e, unit) py" where
  "on_epoch_end tf self model epoch =
     seq (tf_call tf ''tf.random.normal'' []
            [Kw ''shape'' (PyTuple [PyInt (num_img self), PyInt (monitor_latent_dim self)])])
     (\<lambda>random_latent_vectors.
        seq (tf_call tf ''self.model.generator'' [generator model, random_latent_vectors] [])
     (\<lambda>generated_images. seq (denormalize tf generated_images)
     (\<lambda>generated_images.
        for_in (py_range (num_img self)) (\<lambda>i _. save_image tf generated_images epoch i) ())))"

subsection \<open>The two networks and the cells of the notebook\<close>

definition conv_block ::
  "('o, 's, 'e) tf_api \<Rightarrow> 'o \<Rightarrow> arg \<Rightarrow> 'o \<Rightarrow> arg \<Rightarrow> arg \<Rightarrow> arg \<Rightarrow> bool \<Rightarrow> bool \<Rightarrow> bool \<Rightarrow> arg
     \<Rightarrow> ('s, 'e, 'o) py" where
  "conv_block tf x filters activation kernel_size strides padding use_bias use_bn use_dropout drop_value =
     seq (tf_call tf ''layers.Conv2D'' []
            [filters, kernel_size, Kw ''strides'' strides, Kw ''padding'' padding,
             Kw ''use_bias'' (PyBool use_bias)])
     (\<lambda>conv. seq (tf_call tf ''__call__'' [conv, x] [])
     (\<lambda>x. seq (if use_bn
                then seq (tf_call tf ''layers.BatchNormalization'' [] [])
                         (\<lambda>bn. tf_call tf ''__call__'' [bn, x] [])
                else ret x)
     (\<lambda>x. seq (tf_call tf ''__call__'' [activation, x] [])
     (\<lambda>x. if use_dropout
            then seq (tf_call tf ''layers.Dropout'' [] [drop_value])
                     (\<lambda>drop. tf_call tf ''__call__'' [drop, x] [])
            else ret x))))"

definition discriminator_stage ::
  "('o, 's, 'e) tf_api \<Rightarrow> 'o \<Rightarrow> int \<Rightarrow> bool \<Rightarrow> ('s, 'e, 'o) py" where
  "discriminator_stage tf x filters use_dropout =
     seq (tf_call tf ''layers.LeakyReLU'' [] [PyFloat 0.2])
     (\<lambda>activation. conv_block tf x (PyInt filters) activation (PyTuple [PyInt 5, PyInt 5])
        (PyTuple [PyInt 2, PyInt 2]) (PyStr ''same'') True False use_dropout (PyFloat 0.3))"

definition get_discriminator_model :: "('o, 's, 'e) tf_api \<Rightarrow> ('s, 'e, 'o) py" where
  "get_discriminator_model tf =
     seq (tf_call tf ''layers.Input'' [] [Kw ''shape'' (PyTuple [PyInt 28, PyInt 28, PyInt 1])])
     (\<lambda>img_input. seq (tf_call tf ''layers.ZeroPadding2D'' [] [PyTuple [PyInt 2, PyInt 2]])
     (\<lambda>pad. seq (tf_call tf ''__call__'' [pad, img_input] [])
     (\<lambda>x. seq (discriminator_stage tf x 64 False)
     (\<lambda>x. seq (discriminator_stage tf x 128 True)
     (\<lambda>x. seq (discriminator_stage tf x 256 True)
     (\<lambda>x. seq (discriminator_stage tf x 512 False)
     (\<lambda>x. seq (tf_call tf ''layers.Flatten'' [] [])
     (\<lambda>flat. seq (tf_call tf ''__call__'' [flat, x] [])
     (\<lambda>x. seq (tf_call tf ''layers.Dropout'' [] [PyFloat 0.2])
     (\<lambda>drop. seq (tf_call tf ''__call__'' [drop, x] [])
     (\<lambda>x. seq (tf_call tf ''layers.Dense'' [] [PyInt 1])
     (\<lambda>dense. seq (tf_call tf ''__call__'' [dense, x] [])
     (\<lambda>x. tf_call tf ''keras.models.Model'' [img_input, x]
             [Kw ''name'' (PyStr ''discriminator'')])))))))))))))"

definition upsample_block ::
  "('o, 's, 'e) tf_api \<Rightarrow> 'o \<Rightarrow> arg \<Rightarrow> 'o option \<Rightarrow> arg \<Rightarrow> arg \<Rightarrow> arg \<Rightarrow> arg \<Rightarrow> bool \<Rightarrow> bool \<Rightarrow> bool
     \<Rightarrow> arg \<Rightarrow> ('s, 'e, 'o) py" where
  "upsample_block tf x filters activation kernel_size strides up_size padding use_bn use_bias
       use_dropout drop_value =
     seq (tf_call tf ''layers.UpSampling2D'' [] [up_size])
     (\<lambda>up. seq (tf_call tf ''__call__'' [up, x] [])
     (\<lambda>x. seq (tf_call tf ''layers.Conv2D'' []
                 [filters, kernel_size, Kw ''strides'' strides, Kw ''padding'' padding,
                  Kw ''use_bias'' (PyBool use_bias)])
     (\<lambda>conv. seq (tf_call tf ''__call__'' [conv, x] [])
     (\<lambda>x. seq (if use_bn
                then seq (tf_call tf ''layers.BatchNormalization'' [] [])
                         (\<lambda>bn. tf_call tf ''__call__'' [bn, x] [])
                else ret x)
     (\<lambda>x. seq (case activation of
                  None \<Rightarrow> ret x
                | Some a \<Rightarrow> tf_call tf ''__call__'' [a, x] [])
     (\<lambda>x. if use_dropout
            then seq (tf_call tf ''layers.Dropout'' [] [drop_value])
                     (\<lambda>drop. tf_call tf ''__call__'' [drop, x] [])
            else ret x))))))"

definition generator_stage ::
  "('o, 's, 'e) tf_api \<Rightarrow> 'o \<Rightarrow> int \<Rightarrow> 'o \<Rightarrow> ('s, 'e, 'o) py" where
  "generator_stage tf x filters activation =
     upsample_block tf x (PyInt filters) (Some activation) (PyTuple [PyInt 3, PyInt 3])
        (PyTuple [PyInt 1, PyInt 1]) (PyTuple [PyInt 2, PyInt 2]) (PyStr ''same'') True False False
        (PyFloat 0.3)"

definition get_generator_model :: "('o, 's, 'e) tf_api \<Rightarrow> ('s, 'e, 'o) py" where
  "get_generator_model tf =
     seq (tf_call tf ''layers.Input'' [] [Kw ''shape'' (PyTuple [PyInt 128])])
     (\<lambda>noise. seq (tf_call tf ''layers.Dense'' [] [PyInt (4 * 4 * 256), Kw ''use_bias'' (PyBool False)])
     (\<lambda>dense. seq (tf_call tf ''__call__'' [dense, noise] [])
     (\<lambda>x. seq (tf_call tf ''layers.BatchNormalization'' [] [])
     (\<lambda>bn. seq (tf_call tf ''__call__'' [bn, x] [])
     (\<lambda>x. seq (tf_call tf ''layers.LeakyReLU'' [] [PyFloat 0.2])
     (\<lambda>act. seq (tf_call tf ''__call__'' [act, x] [])
     (\<lambda>x. seq (tf_call tf ''layers.Reshape'' [] [PyTuple [PyInt 4, PyInt 4, PyInt 256]])
     (\<lambda>reshape. seq (tf_call tf ''__call__'' [reshape, x] [])
     (\<lambda>x. seq (tf_call tf ''layers.LeakyReLU'' [] [PyFloat 0.2])
     (\<lambda>act. seq (generator_stage tf x 128 act)
     (\<lambda>x. seq (tf_call tf ''layers.LeakyReLU'' [] [PyFloat 0.2])
     (\<lambda>act. seq (generator_stage tf x 64 act)
     (\<lambda>x. seq (tf_call tf ''layers.Activation'' [] [PyStr ''tanh''])
     (\<lambda>act. seq (generator_stage tf x 1 act)
     (\<lambda>x. seq (tf_call tf ''layers.Cropping2D'' [] [PyTuple [PyInt 2, PyInt 2]])
     (\<lambda>crop. seq (tf_call tf ''__call__'' [crop, x] [])
     (\<lambda>x. tf_call tf ''keras.models.Model'' [noise, x]
             [Kw ''name'' (PyStr ''generator'')])))))))))))))))))"

text \<open>The cell that loads Fashion-MNIST, prints its size and shape, and normalises it.\<close>

definition load_cell :: "('o, 's, 'e) tf_api \<Rightarrow> ('s, 'e, 'o) py" where
  "load_cell tf =
     seq (tf_call_list tf ''fashion_mnist.load_data'' [] [])
     (\<lambda>ds. seq (unpack4 ds)
     (\<lambda>(train_images, train_labels, test_images, test_labels).
        seq (tf_call tf ''len'' [train_images] [])
     (\<lambda>n. seq (tf_call tf ''print'' [n] [PyStr ''Number of examples: ''])
     (\<lambda>_. seq (tf_call tf ''train_images.shape'' [train_images] [])
     (\<lambda>shp. seq (tf_call tf ''__getitem__'' [shp] [PyStr ''1:''])
     (\<lambda>tl. seq (tf_call tf ''print'' [tl] [PyStr ''Shape of the images in the dataset: ''])
     (\<lambda>_. seq (tf_call tf ''train_images.shape'' [train_images] [])
     (\<lambda>shp. seq (tf_call tf ''__getitem__'' [shp] [PyInt 0])
     (\<lambda>n. seq (tf_call tf ''train_images.reshape'' [train_images, n]
                  [Operand 1, PyInt 28, PyInt 28, PyInt 1])
     (\<lambda>r. seq (tf_call tf ''astype'' [r] [PyStr ''float32''])
     (\<lambda>train_images. normalize tf train_images)))))))))))"

definition show_image :: "('o, 's, 'e) tf_api \<Rightarrow> string \<Rightarrow> ('s, 'e, unit) py" where
  "show_image tf file =
     seq (tf_call tf ''Image'' [] [PyStr file, Kw ''width'' (PyInt 200)])
     (\<lambda>img. seq (tf_call tf ''display'' [img] []) (\<lambda>_. ret ()))"

definition wgan_notebook :: "('o, 's, 'e) tf_api \<Rightarrow> ('s, 'e, unit) py" where
  "wgan_notebook tf =
     seq (load_cell tf)
     (\<lambda>train_images. seq (get_discriminator_model tf)
     (\<lambda>d_model. seq (tf_call tf ''d_model.summary'' [d_model] [])
     (\<lambda>_. seq (get_generator_model tf)
     (\<lambda>g_model. seq (tf_call tf ''g_model.summary'' [g_model] [])
     (\<lambda>_. seq (tf_call tf ''keras.optimizers.Adam'' []
                 [Kw ''learning_rate'' (PyFloat 0.0002), Kw ''beta_1'' (PyFloat 0.5),
                  Kw ''beta_2'' (PyFloat 0.9)])
     (\<lambda>generator_optimizer.
        seq (tf_call tf ''keras.optimizers.Adam'' []
               [Kw ''learning_rate'' (PyFloat 0.0002), Kw ''beta_1'' (PyFloat 0.5),
                Kw ''beta_2'' (PyFloat 0.9)])
     (\<lambda>discriminator_optimizer.
        seq (WGAN_init_compile tf d_model g_model 128 (Some 3) None discriminator_optimizer
               generator_optimizer (discriminator_loss tf) (generator_loss tf))
     (\<lambda>wgan. seq (tf_call tf ''wgan.fit'' [train_images]
                    [Kw ''batch_size'' (PyInt 512), Kw ''epochs'' (PyInt 5),
                     Kw ''callbacks'' (PyList [PyStr ''cbk''])])
     (\<lambda>history. seq (tf_call tf ''display'' [history] [])
     (\<lambda>_. seq (show_image tf ''generated_img_0_1.png'')
     (\<lambda>_. seq (tf_call tf ''print'' [] [PyStr [CHR 0x0A]])
     (\<lambda>_. seq (show_image tf ''generated_img_1_1.png'')
     (\<lambda>_. seq (tf_call tf ''print'' [] [PyStr [CHR 0x0A]])
     (\<lambda>_. show_image tf ''generated_img_2_1.png''))))))))))))))"

text \<open>
  The library on one pixel: an object is the pixel's value, a real number, and the
  arithmetic operators of arrays and tensors, which work element by element, are the
  operations of the reals. A random draw returns the sample the state holds.
\<close>

definition pixel_fn :: "string \<Rightarrow> real list \<Rightarrow> arg list \<Rightarrow> real \<Rightarrow> real option" where
  "pixel_fn nm objs args sample =
     (case (objs, args) of
        ([x], [PyFloat c]) \<Rightarrow>
          if nm = ''__sub__'' then Some (x - c)
          else if nm = ''__truediv__'' then (if c = 0 then None else Some (x / c))
          else if nm = ''__mul__'' then Some (x * c)
          else if nm = ''__add__'' then Some (x + c)
          else None
      | ([x, y], []) \<Rightarrow>
          if nm = ''__sub__'' then Some (x - y)
          else if nm = ''__mul__'' then Some (x * y)
          else if nm = ''__add__'' then Some (x + y)
          else None
      | _ \<Rightarrow> if nm = ''tf.random.normal'' then Some sample else None)"

definition pixel_tf :: "(real, real, string) tf_api" where
  "pixel_tf = \<lparr>
     tf_fn = (\<lambda>nm objs args sample.
        (case pixel_fn nm objs args sample of None \<Rightarrow> Inl ''TypeError'' | Some x \<Rightarrow> Inr x, sample)),
     tf_fn_list = (\<lambda>nm objs args sample. (Inl ''TypeError'', sample)) \<rparr>"

section \<open>The face-detection notebook\<close>

text \<open>
  The OpenCV interface the notebook uses. Frames, the classifier and the capture device
  are library objects; \<open>cv2.rectangle\<close> draws into the frame it is given, a change of
  the library's state. \<open>pip_install\<close> is the notebook's \<^verbatim>\<open>%pip install\<close> line.
\<close>

record ('o, 's, 'e) cv_api =
  haarcascades :: string
  COLOR_BGR2GRAY :: int
  CascadeClassifier :: "string \<Rightarrow> ('s, 'e, 'o) libfn"
  VideoCapture :: "int \<Rightarrow> ('s, 'e, 'o) libfn"
  cvtColor :: "'o \<Rightarrow> int \<Rightarrow> ('s, 'e, 'o) libfn"
  detectMultiScale ::
    "'o \<Rightarrow> 'o \<Rightarrow> real \<Rightarrow> int \<Rightarrow> int \<times> int \<Rightarrow> ('s, 'e, (int \<times> int \<times> int \<times> int) list) libfn"
  rectangle ::
    "'o \<Rightarrow> int \<times> int \<Rightarrow> int \<times> int \<Rightarrow> int \<times> int \<times> int \<Rightarrow> int \<Rightarrow> ('s, 'e, 'o) libfn"
  capture_read :: "'o \<Rightarrow> ('s, 'e, bool \<times> 'o) libfn"
  imshow :: "string \<Rightarrow> 'o \<Rightarrow> ('s, 'e, unit) libfn"
  waitKey :: "int \<Rightarrow> ('s, 'e, int) libfn"
  capture_release :: "'o \<Rightarrow> ('s, 'e, unit) libfn"
  destroyAllWindows :: "('s, 'e, unit) libfn"
  pip_install :: "string \<Rightarrow> ('s, 'e, unit) libfn"

definition rectangle_args :: "int \<times> int \<times> int \<times> int \<Rightarrow> arg list" where
  "rectangle_args f = (case f of (x, y, w, h) \<Rightarrow>
     [PyTuple [PyInt x, PyInt y], PyTuple [PyInt (x + w), PyInt (y + h)],
      PyTuple [PyInt 0, PyInt 255, PyInt 0], PyInt 4])"

definition detect_bounding_box ::
  "('o, 's, 'e) cv_api \<Rightarrow> 'o \<Rightarrow> 'o \<Rightarrow> ('s, 'e, (int \<times> int \<times> int \<times> int) list) py" where
  "detect_bounding_box cv face_classifier vid =
     seq (call ''cv2.cvtColor'' [PyInt (COLOR_BGR2GRAY cv)] (cvtColor cv vid (COLOR_BGR2GRAY cv)))
     (\<lambda>gray_image.
       seq (call ''face_classifier.detectMultiScale''
              [PyFloat 1.1, PyInt 5, Kw ''minSize'' (PyTuple [PyInt 20, PyInt 20])]
              (detectMultiScale cv face_classifier gray_image 1.1 5 (20, 20)))
     (\<lambda>faces.
       seq (for_in faces
              (\<lambda>(x, y, w, h) _.
                 seq (call ''cv2.rectangle'' (rectangle_args (x, y, w, h))
                        (rectangle cv vid (x, y) (x + w, y + h) (0, 255, 0) 4))
                 (\<lambda>_. ret ()))
              ())
     (\<lambda>_. ret faces)))"

text \<open>
  One iteration of the \<^verbatim>\<open>while True\<close> loop of the last cell; the value says whether
  the iteration ended in \<^verbatim>\<open>break\<close>: when no frame could be read, or when the key \<open>q\<close>
  (code 113) was pressed.
\<close>

definition detection_body :: "('o, 's, 'e) cv_api \<Rightarrow> 'o \<Rightarrow> 'o \<Rightarrow> ('s, 'e, bool) py" where
  "detection_body cv face_classifier video_capture =
     seq (call ''video_capture.read'' [] (capture_read cv video_capture))
     (\<lambda>(result, video_frame).
        if \<not> result then ret True
        else seq (detect_bounding_box cv face_classifier video_frame)
     (\<lambda>faces. seq (call ''cv2.imshow'' [PyStr ''Face Detection Project'']
                     (imshow cv ''Face Detection Project'' video_frame))
     (\<lambda>_. seq (call ''cv2.waitKey'' [PyInt 1] (waitKey cv 1))
     (\<lambda>key. ret (key AND 255 = 113)))))"

text \<open>The last cell: the loop, then the release of the camera and of the windows.\<close>

definition detection_cell :: "nat \<Rightarrow> ('o, 's, 'e) cv_api \<Rightarrow> 'o \<Rightarrow> 'o \<Rightarrow> ('s, 'e, unit) py_opt" where
  "detection_cell fuel cv face_classifier video_capture =
     opt_then (while_true fuel (detection_body cv face_classifier video_capture))
       (\<lambda>_. seq (call ''video_capture.release'' [] (capture_release cv video_capture))
       (\<lambda>_. call ''cv2.destroyAllWindows'' [] (destroyAllWindows cv)))"

text \<open>The notebook, cell by cell.\<close>

definition face_notebook :: "nat \<Rightarrow> ('o, 's, 'e) cv_api \<Rightarrow> ('s, 'e, unit) py_opt" where
  "face_notebook fuel cv =
     then_opt
       (seq (call ''%pip install'' [PyStr ''opencv-python''] (pip_install cv ''opencv-python''))
       (\<lambda>_. seq (call ''cv2.CascadeClassifier'' []
                    (CascadeClassifier cv (haarcascades cv @ ''haarcascade_frontalface_default.xml'')))
       (\<lambda>face_classifier. seq (call ''cv2.VideoCapture'' [PyInt 0] (VideoCapture cv 0))
       (\<lambda>video_capture. ret (face_classifier, video_capture)))))
       (\<lambda>(face_classifier, video_capture). detection_cell fuel cv face_classifier video_capture)"

text \<open>
  What the specification asks of \<open>detect_bounding_box\<close>: one green rectangle of
  thickness 4 drawn into the frame for each detection, in the order of the detections.
\<close>

fun draw_rectangles ::
  "('o, 's, 'e) cv_api \<Rightarrow> 'o \<Rightarrow> (int \<times> int \<times> int \<times> int) list \<Rightarrow> 's \<Rightarrow> 's option" where
  "draw_rectangles cv vid [] s = Some s"
| "draw_rectangles cv vid ((x, y, w, h) # fs) s =
     (case rectangle cv vid (x, y) (x + w, y + h) (0, 255, 0) 4 s of
        (Inl _, _) \<Rightarrow> None
      | (Inr _, s') \<Rightarrow> draw_rectangles cv vid fs s')"

text \<open>
  A camera that delivers a fixed number of frames, a classifier that finds the same two
  faces in every frame, and a display that is there or not: without a display
  \<open>cv2.imshow\<close> raises. The state is the frames left and the rectangles drawn so far.
\<close>

definition toy_cv :: "bool \<Rightarrow> (string, nat \<times> (int \<times> int \<times> int \<times> int) list, string) cv_api" where
  "toy_cv display = \<lparr>
     haarcascades = ''/cv2/data/'',
     COLOR_BGR2GRAY = 6,
     CascadeClassifier = (\<lambda>path s. (Inr ''classifier'', s)),
     VideoCapture = (\<lambda>i s. (Inr ''camera'', s)),
     cvtColor = (\<lambda>img code s. (Inr ''gray'', s)),
     detectMultiScale = (\<lambda>c img sf mn ms s. (Inr [(10, 20, 30, 40), (50, 60, 70, 80)], s)),
     rectangle = (\<lambda>img p1 p2 col th s.
        (Inr img, (fst s, snd s @ [(fst p1, snd p1, fst p2, snd p2)]))),
     capture_read = (\<lambda>c s. if fst s = 0 then (Inr (False, ''none''), s)
                             else (Inr (True, ''frame''), (fst s - 1, snd s))),
     imshow = (\<lambda>nm img s. if display then (Inr (), s) else (Inl ''cv2.error'', s)),
     waitKey = (\<lambda>d s. (Inr (- 1), s)),
     capture_release = (\<lambda>c s. (Inr (), s)),
     destroyAllWindows = (\<lambda>s. (Inr (), s)),
     pip_install = (\<lambda>pkg s. (Inr (), s)) \<rparr>"

section \<open>What a program logs when it returns\<close>

text \<open>
  \<open>emits m evs\<close>: whenever the program \<open>m\<close> returns normally, the library calls it
  made are exactly \<open>evs\<close>, in this order.
\<close>

definition emits :: "('s, 'e, 'a) py \<Rightarrow> 'e event list \<Rightarrow> bool" where
  "emits m evs = (\<forall>w a w'. m w = (Inr a, w') \<longrightarrow> trace w' = trace w @ evs)"








text \<open>The \<open>WGAN\<close> object of the notebook, on the symbolic library.\<close>

definition sym_wgan :: "(sym, int, unit) wgan" where
  "sym_wgan = \<lparr>discriminator = Var ''D'', generator = Var ''G'', latent_dim = 128, d_steps = 3,
     gp_weight = 10, d_optimizer = Var ''d_opt'', g_optimizer = Var ''g_opt'',
     d_loss_fn = discriminator_loss sym_tf, g_loss_fn = generator_loss sym_tf\<rparr>"

section \<open>Exceptions and files in the call log\<close>

text \<open>A log entry of a call that returned.\<close>

fun is_call :: "'e event \<Rightarrow> bool" where
  "is_call (Called nm args) = True"
| "is_call (Raised nm args e) = False"

text \<open>
  \<open>raised_last x t\<close> relates the exception \<open>x\<close> an operation ended with (\<open>None\<close> when
  it returned) to the calls \<open>t\<close> it logged: a library's exception is the one raised by
  the last call logged, all calls before it returned; otherwise every call returned.
\<close>

fun raised_last :: "'e exn option \<Rightarrow> 'e event list \<Rightarrow> bool" where
  "raised_last (Some (LibraryError e)) t =
     (case rev t of
        Raised nm args e' # before \<Rightarrow> e' = e \<and> list_all is_call before
      | _ \<Rightarrow> False)"
| "raised_last _ t = list_all is_call t"

text \<open>The exception a result carries.\<close>

definition exn_of :: "'e exn + 'a \<Rightarrow> 'e exn option" where
  "exn_of r = (case r of Inl x \<Rightarrow> Some x | Inr _ \<Rightarrow> None)"

text \<open>
  \<open>tracks Q m\<close>: in every state, the program \<open>m\<close> only adds entries to the log, and the
  entries it adds are related by \<open>Q\<close> to the way it ends. \<open>tracks_opt\<close> is the same
  for a program with a loop that need not end, whenever it does end.
\<close>

definition tracks :: "('e exn option \<Rightarrow> 'e event list \<Rightarrow> bool) \<Rightarrow> ('s, 'e, 'a) py \<Rightarrow> bool" where
  "tracks Q m = (\<forall>w. \<exists>t. trace (snd (m w)) = trace w @ t \<and> Q (exn_of (fst (m w))) t)"

definition tracks_opt ::
  "('e exn option \<Rightarrow> 'e event list \<Rightarrow> bool)
     \<Rightarrow> (('s, 'e) world \<Rightarrow> (('e exn + 'a) \<times> ('s, 'e) world) option) \<Rightarrow> bool" where
  "tracks_opt Q m = (\<forall>w. case m w of
       None \<Rightarrow> True
     | Some (r, w') \<Rightarrow> \<exists>t. trace w' = trace w @ t \<and> Q (exn_of r) t)"

text \<open>
  The calls of the notebooks that write to disk: \<open>img.save\<close> writes an image file,
  \<^verbatim>\<open>%pip install\<close> installs a package, and \<open>fashion_mnist.load_data\<close> downloads the
  dataset into the Keras cache (the notebook's saved output shows the downloads).
\<close>

fun persistent_write :: "'e event \<Rightarrow> bool" where
  "persistent_write (Called nm args) =
     (nm = ''img.save'' \<or> nm = ''%pip install'' \<or> nm = ''fashion_mnist.load_data'')"
| "persistent_write (Raised nm args e) = False"

text \<open>Exceptions propagate and nothing is written.\<close>

definition quiet :: "'e exn option \<Rightarrow> 'e event list \<Rightarrow> bool" where
  "quiet x t = (raised_last x t \<and> list_all (\<lambda>ev. \<not> persistent_write ev) t)"

text \<open>
  What a relation between endings and logs needs in order to be kept by sequencing:
  it holds of a return without calls and of an interpreter error without calls, and
  calls that returned may be put in front.
\<close>

definition sequential :: "('e exn option \<Rightarrow> 'e event list \<Rightarrow> bool) \<Rightarrow> bool" where
  "sequential Q = (Q None [] \<and> (\<forall>t1 x t2. Q None t1 \<longrightarrow> Q x t2 \<longrightarrow> Q x (t1 @ t2))
     \<and> Q (Some IndexError) [] \<and> Q (Some ValueError) [] \<and> (\<forall>v. Q (Some (UnboundLocalError v)) []))"



text \<open>A program makes no call that writes to disk.\<close>

definition no_write :: "'e exn option \<Rightarrow> 'e event list \<Rightarrow> bool" where
  "no_write x t = list_all (\<lambda>ev. \<not> persistent_write ev) t"

definition writes_no_file :: "('s, 'e, 'a) py \<Rightarrow> bool" where
  "writes_no_file m = tracks no_write m"

definition writes_no_file_opt :: "('s, 'e, 'a) py_opt \<Rightarrow> bool" where
  "writes_no_file_opt m = tracks_opt no_write m"

text \<open>The names of the files the \<open>img.save\<close> calls of a log wrote, in order.\<close>

fun saved_files :: "'e event list \<Rightarrow> string list" where
  "saved_files [] = []"
| "saved_files (Called nm args # t) =
     (if nm = ''img.save''
      then (case args of [PyStr file] \<Rightarrow> file # saved_files t | _ \<Rightarrow> saved_files t)
      else saved_files t)"
| "saved_files (Raised nm args e # t) = saved_files t"

text \<open>The calls of \<open>on_epoch_end\<close> for one image, and for the whole epoch.\<close>

definition save_image_events :: "int \<Rightarrow> int \<Rightarrow> 'e event list" where
  "save_image_events epoch i =
     [Called ''__getitem__'' [PyInt i], Called ''numpy'' [],
      Called ''keras.preprocessing.image.array_to_img'' [],
      Called ''img.save'' [PyStr (image_name i epoch)]]"

definition on_epoch_end_events :: "ganmonitor \<Rightarrow> int \<Rightarrow> 'e event list" where
  "on_epoch_end_events self epoch =
     Called ''tf.random.normal''
       [Kw ''shape'' (PyTuple [PyInt (num_img self), PyInt (monitor_latent_dim self)])]
     # Called ''self.model.generator'' []
     # ([Called ''__mul__'' [PyFloat 127.5], Called ''__add__'' [PyFloat 127.5]]
        @ concat (map (save_image_events epoch) (py_range (num_img self))))"

text \<open>The number a string of decimal digits writes.\<close>

fun nat_of_digits :: "string \<Rightarrow> nat" where
  "nat_of_digits [] = 0"
| "nat_of_digits (c # cs) = (of_char c - 48) * 10 ^ length cs + nat_of_digits cs"

section \<open>The steps of a notebook\<close>

text \<open>
  The four steps the specification names, and the step, if any, that a library call
  belongs to: loading a dataset; constructing a model (a layer or model constructor,
  the application of a layer, adding to a model); training or running a model;
  printing or displaying.
\<close>

datatype phase = LoadData | BuildModel | TrainOrRun | Display

definition starts_with :: "string \<Rightarrow> string \<Rightarrow> bool" where
  "starts_with p s = (take (length p) s = p)"

definition ends_with :: "string \<Rightarrow> string \<Rightarrow> bool" where
  "ends_with p s = (drop (length s - length p) s = p)"

definition phase_of_call :: "string \<Rightarrow> phase option" where
  "phase_of_call nm =
     (if nm = ''load_breast_cancer'' \<or> nm = ''fashion_mnist.load_data'' then Some LoadData
      else if starts_with ''tf.keras.layers.'' nm \<or> starts_with ''layers.'' nm
           \<or> starts_with ''tf.keras.models.'' nm \<or> starts_with ''keras.models.'' nm
           \<or> starts_with ''tf.keras.applications.'' nm \<or> nm = ''tf.keras.Model''
           \<or> nm = ''__call__'' \<or> ends_with ''.add'' nm \<or> nm = ''DummyClassifier''
        then Some BuildModel
      else if nm = ''dummy_clf.fit'' \<or> nm = ''dummy_clf.predict'' \<or> nm = ''wgan.fit''
           \<or> nm = ''face_classifier.detectMultiScale''
        then Some TrainOrRun
      else if nm = ''print'' \<or> nm = ''display'' \<or> ends_with ''.summary'' nm
           \<or> nm = ''layer_summary'' \<or> nm = ''cv2.imshow''
        then Some Display
      else None)"

fun phase_of :: "'e event \<Rightarrow> phase option" where
  "phase_of (Called nm args) = phase_of_call nm"
| "phase_of (Raised nm args e) = None"

text \<open>
  The steps of a log, consecutive calls of the same step counted once, and whether the
  steps \<open>qs\<close> occur in this order among the steps \<open>ps\<close>.
\<close>

definition phases :: "'e event list \<Rightarrow> phase list" where
  "phases t = remdups_adj (List.map_filter phase_of t)"

fun in_order :: "phase list \<Rightarrow> phase list \<Rightarrow> bool" where
  "in_order [] ps = True"
| "in_order (q # qs) [] = False"
| "in_order (q # qs) (p # ps) = (if p = q then in_order qs ps else in_order (q # qs) ps)"

definition four_step_pipeline :: "'e event list \<Rightarrow> bool" where
  "four_step_pipeline t = in_order [LoadData, BuildModel, TrainOrRun, Display] (phases t)"

text \<open>The steps of a run that came to its end, \<open>None\<close> for a run that raised.\<close>

definition completed_phases :: "('e exn + 'a) \<times> ('s, 'e) world \<Rightarrow> phase list option" where
  "completed_phases rw = (case rw of (Inr _, w') \<Rightarrow> Some (phases (trace w')) | (Inl _, _) \<Rightarrow> None)"

text \<open>The state of the toy camera with two frames left and nothing drawn.\<close>

definition camera :: "(nat \<times> (int \<times> int \<times> int \<times> int) list, string) world" where
  "camera = \<lparr>trace = [], store = (2, [])\<rparr>"

text \<open>
  The symbolic library that also keeps, in its state, the objects handed to \<open>img.save\<close>,
  and the notebook's \<open>WGAN\<close> object on it.
\<close>

definition saving_tf :: "(sym, int \<times> sym list, unit) tf_api" where
  "saving_tf = \<lparr>
     tf_fn = (\<lambda>nm objs args (n, saved).
        (Inr (Res n nm objs args), (n + 1, if nm = ''img.save'' then saved @ objs else saved))),
     tf_fn_list = (\<lambda>nm objs args (n, saved).
        (Inr (map (Elem (Res n nm objs args)) [0 ..< sym_length nm objs]), (n + 1, saved))) \<rparr>"

definition saving_wgan :: "(sym, int \<times> sym list, unit) wgan" where
  "saving_wgan = \<lparr>discriminator = Var ''D'', generator = Var ''G'', latent_dim = 128, d_steps = 3,
     gp_weight = 10, d_optimizer = Var ''d_opt'', g_optimizer = Var ''g_opt'',
     d_loss_fn = discriminator_loss saving_tf, g_loss_fn = generator_loss saving_tf\<rparr>"

section \<open>Properties\<close>

lemma seq_ret [simp]: "seq (ret x) f = f x"
  by (simp add: seq_def ret_def)

lemma seq_Inr: "m w = (Inr a, w') \<Longrightarrow> seq m f w = f a w'"
  by (simp add: seq_def)

lemma seq_Inl: "m w = (Inl x, w') \<Longrightarrow> seq m f w = (Inl x, w')"
  by (simp add: seq_def)

lemma sym_call [simp]:
  "tf_call sym_tf nm objs args \<lparr>trace = t, store = n\<rparr>
     = (Inr (Res n nm objs args), \<lparr>trace = t @ [Called nm args], store = n + 1\<rparr>)"
  by (simp add: tf_call_def call_def sym_tf_def)

lemma py_range_2 [simp]: "py_range 2 = [0, 1]"
  by (simp add: py_range_def upt_rec numeral_2_eq_2)

text \<open>
  C8. The \<open>dropout\<close> argument of \<open>encoder_block\<close> has no influence on what the function
  builds: for every library, input, number of filters and pool size, two calls that
  differ only in \<open>dropout\<close> are the same program. The Dropout layer is constructed with
  the constant 0.3, as the run on the symbolic library with \<open>dropout = 0.9\<close> shows.
\<close>

theorem encoder_block_ignores_dropout:
  "encoder_block tf inputs n_filters pool_size d1 = encoder_block tf inputs n_filters pool_size d2
   \<and> fst (encoder_block sym_tf (Var ''inputs'') (PyInt 64) (PyTuple [PyInt 2, PyInt 2]) (PyFloat 0.9) w0)
       = Inr (Res 7 ''__call__''
                [Res 6 ''tf.keras.layers.Activation'' [] [PyStr ''relu''],
                 Res 5 ''__call__''
                   [Res 4 ''tf.keras.layers.Conv2D'' []
                      [Kw ''filters'' (PyInt 64), Kw ''kernel_size'' (PyTuple [PyInt 3, PyInt 3]),
                       Kw ''kernel_initializer'' (PyStr ''he_normal''), Kw ''padding'' (PyStr ''same'')],
                    Res 3 ''__call__''
                      [Res 2 ''tf.keras.layers.Activation'' [] [PyStr ''relu''],
                       Res 1 ''__call__''
                         [Res 0 ''tf.keras.layers.Conv2D'' []
                            [Kw ''filters'' (PyInt 64), Kw ''kernel_size'' (PyTuple [PyInt 3, PyInt 3]),
                             Kw ''kernel_initializer'' (PyStr ''he_normal''),
                             Kw ''padding'' (PyStr ''same'')],
                          Var ''inputs''] []] []] []] [],
              Res 11 ''__call__''
                [Res 10 ''tf.keras.layers.Dropout'' [] [PyFloat 0.3],
                 Res 9 ''__call__''
                   [Res 8 ''tf.keras.layers.MaxPooling2D'' [] [Kw ''pool_size'' (PyTuple [PyInt 2, PyInt 2])],
                    Res 7 ''__call__''
                      [Res 6 ''tf.keras.layers.Activation'' [] [PyStr ''relu''],
                       Res 5 ''__call__''
                         [Res 4 ''tf.keras.layers.Conv2D'' []
                            [Kw ''filters'' (PyInt 64), Kw ''kernel_size'' (PyTuple [PyInt 3, PyInt 3]),
                             Kw ''kernel_initializer'' (PyStr ''he_normal''),
                             Kw ''padding'' (PyStr ''same'')],
                          Res 3 ''__call__''
                            [Res 2 ''tf.keras.layers.Activation'' [] [PyStr ''relu''],
                             Res 1 ''__call__''
                               [Res 0 ''tf.keras.layers.Conv2D'' []
                                  [Kw ''filters'' (PyInt 64),
                                   Kw ''kernel_size'' (PyTuple [PyInt 3, PyInt 3]),
                                   Kw ''kernel_initializer'' (PyStr ''he_normal''),
                                   Kw ''padding'' (PyStr ''same'')],
                                Var ''inputs''] []] []] []] []] []] [])"
  by (simp add: encoder_block_def conv2d_block_def w0_def seq_def ret_def)


text \<open>
  C10. For every input \<open>X\<close>, a block built with \<open>use_1x1conv=False\<close> returns
  \<open>relu(bn2(conv2(relu(bn1(conv1(X))))) + X)\<close>: the unmodified input is added before the
  last ReLU. A block built with \<open>use_1x1conv=True\<close> returns
  \<open>relu(bn2(conv2(relu(bn1(conv1(X))))) + conv3(X))\<close>. In the first case, with
  \<open>strides=1\<close> and as many channels as the input has, the output has the input's shape.
\<close>

theorem Residual_call_result:
  "fst (Residual_block sym_tf n False s X w0)
     = Inr (Res 11 ''tf.keras.activations.relu''
        [Res 10 ''__add__''
          [Res 9 ''__call__''
            [Res 4 ''tf.keras.layers.BatchNormalization'' [] [],
             Res 8 ''__call__''
              [Res 2 ''tf.keras.layers.Conv2D'' []
                [n, Kw ''kernel_size'' (PyInt 3), Kw ''padding'' (PyStr ''same'')],
               Res 7 ''tf.keras.activations.relu''
                [Res 6 ''__call__''
                  [Res 3 ''tf.keras.layers.BatchNormalization'' [] [],
                   Res 5 ''__call__''
                    [Res 1 ''tf.keras.layers.Conv2D'' []
                      [n, Kw ''padding'' (PyStr ''same''), Kw ''kernel_size'' (PyInt 3),
                       Kw ''strides'' s],
                     X] []] []] []] []] [],
           X] []] [])
   \<and> fst (Residual_block sym_tf n True s X w0)
     = Inr (Res 13 ''tf.keras.activations.relu''
        [Res 12 ''__add__''
          [Res 10 ''__call__''
            [Res 5 ''tf.keras.layers.BatchNormalization'' [] [],
             Res 9 ''__call__''
              [Res 2 ''tf.keras.layers.Conv2D'' []
                [n, Kw ''kernel_size'' (PyInt 3), Kw ''padding'' (PyStr ''same'')],
               Res 8 ''tf.keras.activations.relu''
                [Res 7 ''__call__''
                  [Res 4 ''tf.keras.layers.BatchNormalization'' [] [],
                   Res 6 ''__call__''
                    [Res 1 ''tf.keras.layers.Conv2D'' []
                      [n, Kw ''padding'' (PyStr ''same''), Kw ''kernel_size'' (PyInt 3),
                       Kw ''strides'' s],
                     X] []] []] []] []] [],
           Res 11 ''__call__''
            [Res 3 ''tf.keras.layers.Conv2D'' []
              [n, Kw ''kernel_size'' (PyInt 1), Kw ''strides'' s],
             X] []] []] [])
   \<and> (0 < b \<and> 0 < h \<and> 0 < wd \<and> 0 < c \<longrightarrow>
        fst (Residual_block shape_tf (PyInt c) False (PyInt 1) (Tensor [b, h, wd, c]) w)
          = Inr (Tensor [b, h, wd, c]))"
proof (intro conjI impI)
  show "fst (Residual_block sym_tf n False s X w0) = Inr (Res 11 ''tf.keras.activations.relu''
        [Res 10 ''__add__''
          [Res 9 ''__call__''
            [Res 4 ''tf.keras.layers.BatchNormalization'' [] [],
             Res 8 ''__call__''
              [Res 2 ''tf.keras.layers.Conv2D'' []
                [n, Kw ''kernel_size'' (PyInt 3), Kw ''padding'' (PyStr ''same'')],
               Res 7 ''tf.keras.activations.relu''
                [Res 6 ''__call__''
                  [Res 3 ''tf.keras.layers.BatchNormalization'' [] [],
                   Res 5 ''__call__''
                    [Res 1 ''tf.keras.layers.Conv2D'' []
                      [n, Kw ''padding'' (PyStr ''same''), Kw ''kernel_size'' (PyInt 3),
                       Kw ''strides'' s],
                     X] []] []] []] []] [],
           X] []] [])"
    by (simp add: Residual_block_def Residual_init_def Residual_call_def seq_def ret_def w0_def)
  show "fst (Residual_block sym_tf n True s X w0) = Inr (Res 13 ''tf.keras.activations.relu''
        [Res 12 ''__add__''
          [Res 10 ''__call__''
            [Res 5 ''tf.keras.layers.BatchNormalization'' [] [],
             Res 9 ''__call__''
              [Res 2 ''tf.keras.layers.Conv2D'' []
                [n, Kw ''kernel_size'' (PyInt 3), Kw ''padding'' (PyStr ''same'')],
               Res 8 ''tf.keras.activations.relu''
                [Res 7 ''__call__''
                  [Res 4 ''tf.keras.layers.BatchNormalization'' [] [],
                   Res 6 ''__call__''
                    [Res 1 ''tf.keras.layers.Conv2D'' []
                      [n, Kw ''padding'' (PyStr ''same''), Kw ''kernel_size'' (PyInt 3),
                       Kw ''strides'' s],
                     X] []] []] []] []] [],
           Res 11 ''__call__''
            [Res 3 ''tf.keras.layers.Conv2D'' []
              [n, Kw ''kernel_size'' (PyInt 1), Kw ''strides'' s],
             X] []] []] [])"
    by (simp add: Residual_block_def Residual_init_def Residual_call_def seq_def ret_def w0_def)
  assume "0 < b \<and> 0 < h \<and> 0 < wd \<and> 0 < c"
  then show "fst (Residual_block shape_tf (PyInt c) False (PyInt 1) (Tensor [b, h, wd, c]) w)
      = Inr (Tensor [b, h, wd, c])"
    by (simp add: Residual_block_def Residual_init_def Residual_call_def seq_def ret_def
        tf_call_def call_def shape_tf_def shape_fn_def conv2d_shape_def int_kwarg_def
        conv_extent_def)
qed

text \<open>
  The block and the input of the notebook's own example, \<^verbatim>\<open>Residual(3)\<close> on a tensor of
  shape (4, 6, 6, 3).
\<close>

theorem Residual_call_result_witness:
  "(0::int) < 4 \<and> (0::int) < 6 \<and> (0::int) < 3
   \<and> fst (Residual_block shape_tf (PyInt 3) False (PyInt 1) (Tensor [4, 6, 6, 3])
            \<lparr>trace = [], store = ()\<rparr>)
       = Inr (Tensor [4, 6, 6, 3])"
  using Residual_call_result [of _ _ _ 4 6 6 3 "\<lparr>trace = [], store = ()\<rparr>"]
  by simp

lemma ret_iff: "ret x w = (r, w') \<longleftrightarrow> r = Inr x \<and> w' = w"
  by (auto simp: ret_def)

lemma seq_Inr_iff:
  "seq m f w = (Inr b, w'') \<longleftrightarrow> (\<exists>a w'. m w = (Inr a, w') \<and> f a w' = (Inr b, w''))"
  by (auto simp: seq_def split: prod.splits sum.splits)

lemma call_Inr_iff:
  "call nm args f w = (Inr a, w') \<longleftrightarrow>
     (\<exists>s'. f (store w) = (Inr a, s') \<and> w' = \<lparr>trace = trace w @ [Called nm args], store = s'\<rparr>)"
  by (auto simp: call_def split: prod.splits sum.splits)

lemma draw_loop:
  "for_in faces
     (\<lambda>(x, y, w, h) _.
        seq (call ''cv2.rectangle'' (rectangle_args (x, y, w, h))
               (rectangle cv vid (x, y) (x + w, y + h) (0, 255, 0) 4))
        (\<lambda>_. ret ()))
     () w = (Inr (), w') \<longleftrightarrow>
   (\<exists>s3. draw_rectangles cv vid faces (store w) = Some s3
      \<and> w' = \<lparr>trace = trace w @ map (\<lambda>f. Called ''cv2.rectangle'' (rectangle_args f)) faces,
              store = s3\<rparr>)"
proof (induction faces arbitrary: w)
  case Nil
  then show ?case by (auto simp: ret_iff)
next
  case (Cons f fs)
  obtain x y wd h where f: "f = (x, y, wd, h)" by (cases f) auto
  show ?case
    unfolding f
    by (auto simp: seq_Inr_iff call_Inr_iff ret_iff Cons.IH split: prod.splits sum.splits)
qed

text \<open>
  C5. For every frame, \<open>detect_bounding_box\<close> leaves the detection to the classifier:
  it returns normally exactly when the conversion to grayscale, the classifier's
  \<open>detectMultiScale\<close> on the gray image with scale factor 1.1, 5 neighbours and minimum
  size 20x20, and the drawing of one green rectangle of thickness 4 into the input frame
  for each detection all succeed; it then returns the classifier's list of detections
  unchanged, having made one \<open>cv2.rectangle\<close> call per detection, from \<open>(x, y)\<close> to
  \<open>(x + w, y + h)\<close>, and no other call.
\<close>

theorem detect_bounding_box_spec:
  "detect_bounding_box cv face_classifier vid w = (Inr faces, w') \<longleftrightarrow>
     (\<exists>gray s1 s2 s3.
        cvtColor cv vid (COLOR_BGR2GRAY cv) (store w) = (Inr gray, s1)
      \<and> detectMultiScale cv face_classifier gray 1.1 5 (20, 20) s1 = (Inr faces, s2)
      \<and> draw_rectangles cv vid faces s2 = Some s3
      \<and> w' = \<lparr>trace = trace w
                 @ [Called ''cv2.cvtColor'' [PyInt (COLOR_BGR2GRAY cv)],
                    Called ''face_classifier.detectMultiScale''
                      [PyFloat 1.1, PyInt 5, Kw ''minSize'' (PyTuple [PyInt 20, PyInt 20])]]
                 @ map (\<lambda>f. Called ''cv2.rectangle'' (rectangle_args f)) faces,
               store = s3\<rparr>)"
  unfolding detect_bounding_box_def
  by (auto simp: seq_Inr_iff call_Inr_iff ret_iff draw_loop)

theorem detect_bounding_box_spec_witness:
  "detect_bounding_box (toy_cv True) ''classifier'' ''frame'' \<lparr>trace = [], store = (1, [])\<rparr>
     = (Inr [(10, 20, 30, 40), (50, 60, 70, 80)],
        \<lparr>trace = [Called ''cv2.cvtColor'' [PyInt 6],
                  Called ''face_classifier.detectMultiScale''
                    [PyFloat 1.1, PyInt 5, Kw ''minSize'' (PyTuple [PyInt 20, PyInt 20])],
                  Called ''cv2.rectangle''
                    [PyTuple [PyInt 10, PyInt 20], PyTuple [PyInt 40, PyInt 60],
                     PyTuple [PyInt 0, PyInt 255, PyInt 0], PyInt 4],
                  Called ''cv2.rectangle''
                    [PyTuple [PyInt 50, PyInt 60], PyTuple [PyInt 120, PyInt 140],
                     PyTuple [PyInt 0, PyInt 255, PyInt 0], PyInt 4]],
         store = (1, [(10, 20, 40, 60), (50, 60, 120, 140)])\<rparr>)"
  by (rule detect_bounding_box_spec [THEN iffD2]) (simp add: toy_cv_def rectangle_args_def)

lemma emits_ret: "emits (ret x) []"
  by (simp add: emits_def ret_def)


lemma emits_call: "emits (call nm args f) [Called nm args]"
  by (auto simp: emits_def call_Inr_iff)

lemma emits_tf_call: "emits (tf_call tf nm objs args) [Called nm args]"
  by (simp add: tf_call_def emits_call)

lemma emits_tf_call_list: "emits (tf_call_list tf nm objs args) [Called nm args]"
  by (simp add: tf_call_list_def emits_call)

lemma emits_seq:
  assumes "emits m e1" and "\<And>a. emits (f a) e2"
  shows "emits (seq m f) (e1 @ e2)"
  using assms unfolding emits_def seq_Inr_iff by fastforce

lemma emits_seq_cons:
  assumes "emits m [e]" and "\<And>a. emits (f a) es"
  shows "emits (seq m f) (e # es)"
  using emits_seq [OF assms] by simp


lemma emits_for_in:
  assumes "\<And>x acc. emits (body x acc) (ev x)"
  shows "emits (for_in xs body acc) (concat (map ev xs))"
proof (induction xs arbitrary: acc)
  case Nil
  show ?case by (simp add: emits_ret)
next
  case (Cons x xs)
  show ?case using emits_seq [OF assms [of x acc], of "for_in xs body" "concat (map ev xs)"] Cons.IH
    by simp
qed

lemmas emits_steps = emits_seq_cons emits_tf_call emits_tf_call_list emits_ret








lemma length_py_range [simp]: "length (py_range n) = nat n"
  by (simp add: py_range_def)




lemma seq_ret_right [simp]: "seq m ret = m"
  by (auto simp: seq_def ret_def fun_eq_iff split: prod.splits sum.splits)





lemma sym_call_list [simp]:
  "tf_call_list sym_tf nm objs args \<lparr>trace = t, store = n\<rparr>
     = (Inr (map (Elem (Res n nm objs args))
                 [0 ..< sym_length nm objs]),
        \<lparr>trace = t @ [Called nm args], store = n + 1\<rparr>)"
  by (simp add: tf_call_list_def call_def sym_tf_def)

lemma seq_sym_call [simp]:
  "seq (tf_call sym_tf nm objs args) f \<lparr>trace = t, store = n\<rparr>
     = f (Res n nm objs args) \<lparr>trace = t @ [Called nm args], store = n + 1\<rparr>"
  by (simp add: seq_def)

lemma seq_sym_call_list [simp]:
  "seq (tf_call_list sym_tf nm objs args) f \<lparr>trace = t, store = n\<rparr>
     = f (map (Elem (Res n nm objs args))
                 [0 ..< sym_length nm objs])
         \<lparr>trace = t @ [Called nm args], store = n + 1\<rparr>"
  by (simp add: seq_def)

lemma seq_raise [simp]: "seq (raise x) f = raise x"
  by (simp add: seq_def raise_def)

lemma index0_Cons [simp]: "index0 (x # xs) = ret x"
  by (simp add: index0_def)

lemma index0_Nil [simp]: "index0 [] = raise IndexError"
  by (simp add: index0_def)

lemma py_range_3 [simp]: "py_range 3 = [0, 1, 2]"
  by (simp add: py_range_def upt_rec numeral_3_eq_3)

lemma ret_apply [simp]: "ret x \<lparr>trace = t, store = n\<rparr> = (Inr x, \<lparr>trace = t, store = n\<rparr>)"
  by (simp add: ret_def)

lemma raise_apply [simp]: "raise x \<lparr>trace = t, store = n\<rparr> = (Inl x, \<lparr>trace = t, store = n\<rparr>)"
  by (simp add: raise_def)




text \<open>
  C1. \<open>gradient_penalty\<close> does not draw its interpolation coefficient uniformly from
  [0, 1]: it calls \<open>tf.random.normal\<close> with mean 0 and standard deviation 1. On one
  pixel with real value 0 and fake value 1, a draw of 2, which a normal distribution
  can give and the uniform one on [0, 1] cannot, puts the image at 2, outside the
  segment between the real and the fake image. The rest of the function is the
  penalty of the specification: the gradient of the discriminator's output at that
  image, its squares summed over axes 1, 2, 3, the square root, minus 1, squared, and
  the mean.
\<close>

theorem gradient_penalty_draws_normal:
  "interpolate pixel_tf 1 0 1 \<lparr>trace = [], store = 2\<rparr>
     = (Inr 2, \<lparr>trace = [Called ''tf.random.normal''
                            [PyList [Operand 0, PyInt 1, PyInt 1, PyInt 1], PyFloat 0, PyFloat 1],
                          Called ''__sub__'' [], Called ''__mul__'' [], Called ''__add__'' []],
                store = 2\<rparr>)
   \<and> fst (gradient_penalty sym_tf sym_wgan (Var ''batch_size'') (Var ''real_images'')
            (Var ''fake_images'') w0)
     = Inr (Res 13 ''tf.reduce_mean''
        [Res 12 ''__pow__''
          [Res 11 ''__sub__''
            [Res 10 ''tf.sqrt''
              [Res 9 ''tf.reduce_sum''
                [Res 8 ''tf.square''
                  [Elem
                    (Res 7 ''gp_tape.gradient''
                      [Res 4 ''tf.GradientTape'' [] [],
                       Res 6 ''self.discriminator''
                        [Var ''D'',
                         Res 3 ''__add__''
                          [Var ''real_images'',
                           Res 2 ''__mul__''
                            [Res 0 ''tf.random.normal'' [Var ''batch_size'']
                              [PyList [Operand 0, PyInt 1, PyInt 1, PyInt 1], PyFloat 0, PyFloat 1],
                             Res 1 ''__sub__'' [Var ''fake_images'', Var ''real_images''] []]
                            []]
                          []]
                        [Kw ''training'' (PyBool True)],
                       Res 3 ''__add__''
                        [Var ''real_images'',
                         Res 2 ''__mul__''
                          [Res 0 ''tf.random.normal'' [Var ''batch_size'']
                            [PyList [Operand 0, PyInt 1, PyInt 1, PyInt 1], PyFloat 0, PyFloat 1],
                           Res 1 ''__sub__'' [Var ''fake_images'', Var ''real_images''] []]
                          []]
                        []]
                      [])
                    0]
                  []]
                [Kw ''axis'' (PyList [PyInt 1, PyInt 2, PyInt 3])]]
              []]
            [PyFloat 1]]
          [PyInt 2]]
        [])"
proof
  show "interpolate pixel_tf 1 0 1 \<lparr>trace = [], store = 2\<rparr>
     = (Inr 2, \<lparr>trace = [Called ''tf.random.normal''
                            [PyList [Operand 0, PyInt 1, PyInt 1, PyInt 1], PyFloat 0, PyFloat 1],
                          Called ''__sub__'' [], Called ''__mul__'' [], Called ''__add__'' []],
                store = 2\<rparr>)"
    by (simp add: interpolate_def seq_def tf_call_def call_def pixel_tf_def pixel_fn_def)
  show "fst (gradient_penalty sym_tf sym_wgan (Var ''batch_size'') (Var ''real_images'')
            (Var ''fake_images'') w0) = Inr (Res 13 ''tf.reduce_mean''
        [Res 12 ''__pow__''
          [Res 11 ''__sub__''
            [Res 10 ''tf.sqrt''
              [Res 9 ''tf.reduce_sum''
                [Res 8 ''tf.square''
                  [Elem
                    (Res 7 ''gp_tape.gradient''
                      [Res 4 ''tf.GradientTape'' [] [],
                       Res 6 ''self.discriminator''
                        [Var ''D'',
                         Res 3 ''__add__''
                          [Var ''real_images'',
                           Res 2 ''__mul__''
                            [Res 0 ''tf.random.normal'' [Var ''batch_size'']
                              [PyList [Operand 0, PyInt 1, PyInt 1, PyInt 1], PyFloat 0, PyFloat 1],
                             Res 1 ''__sub__'' [Var ''fake_images'', Var ''real_images''] []]
                            []]
                          []]
                        [Kw ''training'' (PyBool True)],
                       Res 3 ''__add__''
                        [Var ''real_images'',
                         Res 2 ''__mul__''
                          [Res 0 ''tf.random.normal'' [Var ''batch_size'']
                            [PyList [Operand 0, PyInt 1, PyInt 1, PyInt 1], PyFloat 0, PyFloat 1],
                           Res 1 ''__sub__'' [Var ''fake_images'', Var ''real_images''] []]
                          []]
                        []]
                      [])
                    0]
                  []]
                [Kw ''axis'' (PyList [PyInt 1, PyInt 2, PyInt 3])]]
              []]
            [PyFloat 1]]
          [PyInt 2]]
        [])"
    by code_simp
qed

lemma raised_last_append:
  "list_all is_call t1 \<Longrightarrow> raised_last x t2 \<Longrightarrow> raised_last x (t1 @ t2)"
proof (cases x)
  case None
  then show "list_all is_call t1 \<Longrightarrow> raised_last x t2 \<Longrightarrow> raised_last x (t1 @ t2)" by simp
next
  case (Some y)
  then show "list_all is_call t1 \<Longrightarrow> raised_last x t2 \<Longrightarrow> raised_last x (t1 @ t2)"
    by (cases y; cases "rev t2") (auto split: event.splits list.splits)
qed


lemma sequential_quiet: "sequential quiet"
  by (auto simp: sequential_def quiet_def raised_last_append)

lemma tracks_ret: "sequential Q \<Longrightarrow> tracks Q (ret x)"
  by (simp add: tracks_def ret_def exn_of_def sequential_def)

lemma tracks_index0: "sequential Q \<Longrightarrow> tracks Q (index0 xs)"
  by (cases xs) (simp_all add: tracks_def index0_def ret_def raise_def exn_of_def sequential_def)

lemma tracks_unpack4: "sequential Q \<Longrightarrow> tracks Q (unpack4 xs)"
  by (simp add: tracks_def unpack4_def ret_def raise_def exn_of_def sequential_def split: list.splits)

lemma tracks_call:
  assumes "Q None [Called nm args]" and "\<And>e. Q (Some (LibraryError e)) [Raised nm args e]"
  shows "tracks Q (call nm args f)"
  using assms by (auto simp: tracks_def call_def exn_of_def split: prod.splits sum.splits)

lemma tracks_seq:
  assumes "sequential Q" and "tracks Q m" and "\<And>a. tracks Q (f a)"
  shows "tracks Q (seq m f)"
  unfolding tracks_def
proof
  fix w
  obtain r w1 where mw: "m w = (r, w1)" by (cases "m w")
  from assms(2) mw obtain t1 where t1: "trace w1 = trace w @ t1" "Q (exn_of r) t1"
    unfolding tracks_def by (metis fst_conv snd_conv)
  show "\<exists>t. trace (snd (seq m f w)) = trace w @ t \<and> Q (exn_of (fst (seq m f w))) t"
  proof (cases r)
    case (Inl x)
    with mw t1 show ?thesis by (auto simp: seq_def exn_of_def)
  next
    case (Inr a)
    from assms(3) [of a] obtain t2 where
      t2: "trace (snd (f a w1)) = trace w1 @ t2" "Q (exn_of (fst (f a w1))) t2"
      unfolding tracks_def by blast
    from Inr t1 have "Q None t1" by (simp add: exn_of_def)
    with t2 assms(1) have "Q (exn_of (fst (f a w1))) (t1 @ t2)"
      unfolding sequential_def by blast
    with Inr mw t1 t2 show ?thesis by (auto simp: seq_def)
  qed
qed

lemma tracks_for_in:
  assumes "sequential Q" and "\<And>x acc. tracks Q (body x acc)"
  shows "tracks Q (for_in xs body acc)"
proof (induction xs arbitrary: acc)
  case Nil
  show ?case by (simp add: tracks_ret assms(1))
next
  case (Cons x xs)
  show ?case by (simp add: tracks_seq [OF assms(1) assms(2)] Cons.IH)
qed

lemma tracks_if: "tracks Q a \<Longrightarrow> tracks Q b \<Longrightarrow> tracks Q (if c then a else b)"
  by simp

lemma tracks_case_prod: "(\<And>a b. tracks Q (f a b)) \<Longrightarrow> tracks Q (case p of (a, b) \<Rightarrow> f a b)"
  by (cases p) simp

lemma tracks_case_prod_app:
  "(\<And>a b. tracks Q (f a b acc)) \<Longrightarrow> tracks Q ((case p of (a, b) \<Rightarrow> f a b) acc)"
  by (cases p) simp

lemma tracks_case_option:
  "tracks Q a \<Longrightarrow> (\<And>x. tracks Q (f x)) \<Longrightarrow> tracks Q (case v of None \<Rightarrow> a | Some x \<Rightarrow> f x)"
  by (cases v) simp_all

lemma tracks_mono: "(\<And>x t. Q x t \<Longrightarrow> R x t) \<Longrightarrow> tracks Q m \<Longrightarrow> tracks R m"
  unfolding tracks_def by blast

lemma quiet_tf_call:
  "\<not> persistent_write (Called nm args :: 'e event) \<Longrightarrow> tracks quiet (tf_call (tf :: ('o, 's, 'e) tf_api) nm objs args)"
  unfolding tf_call_def by (rule tracks_call) (simp_all add: quiet_def)

lemma quiet_tf_call_list:
  "\<not> persistent_write (Called nm args :: 'e event) \<Longrightarrow> tracks quiet (tf_call_list (tf :: ('o, 's, 'e) tf_api) nm objs args)"
  unfolding tf_call_list_def by (rule tracks_call) (simp_all add: quiet_def)

lemma quiet_call:
  "\<not> persistent_write (Called nm args :: 'e event) \<Longrightarrow> tracks quiet (call nm args (f :: ('s, 'e, 'a) libfn))"
  by (rule tracks_call) (simp_all add: quiet_def)

lemmas quiet_rules =
  tracks_seq [OF sequential_quiet] tracks_for_in [OF sequential_quiet]
  tracks_ret [OF sequential_quiet] tracks_index0 [OF sequential_quiet]
  tracks_unpack4 [OF sequential_quiet]
  quiet_tf_call quiet_tf_call_list quiet_call tracks_if tracks_case_prod tracks_case_prod_app
  tracks_case_option






lemma tracksD:
  "tracks Q m \<Longrightarrow> m w = (r, w') \<Longrightarrow> \<exists>t. trace w' = trace w @ t \<and> Q (exn_of r) t"
  unfolding tracks_def by (metis fst_conv snd_conv)

lemma tracks_while_true:
  assumes "sequential Q" and "tracks Q body"
  shows "tracks_opt Q (while_true n body)"
  unfolding tracks_opt_def
proof
  fix w
  show "case while_true n body w of None \<Rightarrow> True
        | Some (r, w') \<Rightarrow> \<exists>t. trace w' = trace w @ t \<and> Q (exn_of r) t"
  proof (induction n arbitrary: w)
    case 0
    show ?case by simp
  next
    case (Suc n)
    obtain r w1 where b: "body w = (r, w1)" by (cases "body w")
    from tracksD [OF assms(2) b] obtain t1 where
      t1: "trace w1 = trace w @ t1" "Q (exn_of r) t1" by blast
    show ?case
    proof (cases r)
      case (Inl x)
      with b t1 show ?thesis by (auto simp: exn_of_def)
    next
      case (Inr stop)
      with t1 have q1: "Q None t1" by (simp add: exn_of_def)
      show ?thesis
      proof (cases stop)
        case True
        with Inr b t1 q1 show ?thesis by (auto simp: exn_of_def)
      next
        case False
        show ?thesis
        proof (cases "while_true n body w1")
          case None
          with Inr b False show ?thesis by simp
        next
          case (Some rw)
          obtain r2 w2 where rw: "rw = (r2, w2)" by (cases rw)
          from Suc.IH [of w1] Some rw obtain t2 where
            t2: "trace w2 = trace w1 @ t2" "Q (exn_of r2) t2" by auto
          from q1 t2 assms(1) have "Q (exn_of r2) (t1 @ t2)"
            unfolding sequential_def by blast
          with Inr b False Some rw t1 t2 show ?thesis by auto
        qed
      qed
    qed
  qed
qed

lemma tracks_optD:
  assumes "tracks_opt Q m" and "m w = Some (r, w')"
  shows "\<exists>t. trace w' = trace w @ t \<and> Q (exn_of r) t"
proof -
  from assms(1) have "case m w of None \<Rightarrow> True
        | Some (r, w') \<Rightarrow> \<exists>t. trace w' = trace w @ t \<and> Q (exn_of r) t"
    unfolding tracks_opt_def by (rule spec)
  with assms(2) show ?thesis by simp
qed

lemma tracks_opt_then:
  assumes "sequential Q" and "tracks_opt Q m" and "\<And>a. tracks Q (f a)"
  shows "tracks_opt Q (opt_then m f)"
  unfolding tracks_opt_def
proof
  fix w
  show "case opt_then m f w of None \<Rightarrow> True
        | Some (r, w') \<Rightarrow> \<exists>t. trace w' = trace w @ t \<and> Q (exn_of r) t"
  proof (cases "m w")
    case None
    then show ?thesis by (simp add: opt_then_def)
  next
    case (Some rw)
    obtain r w1 where rw: "rw = (r, w1)" by (cases rw)
    from Some rw have "m w = Some (r, w1)" by simp
    from tracks_optD [OF assms(2) this] obtain t1 where
      t1: "trace w1 = trace w @ t1" "Q (exn_of r) t1" by blast
    show ?thesis
    proof (cases r)
      case (Inl x)
      with Some rw t1 show ?thesis by (auto simp: opt_then_def exn_of_def)
    next
      case (Inr a)
      with t1 have q1: "Q None t1" by (simp add: exn_of_def)
      obtain r2 w2 where f: "f a w1 = (r2, w2)" by (cases "f a w1")
      from tracksD [OF assms(3) f] obtain t2 where
        t2: "trace w2 = trace w1 @ t2" "Q (exn_of r2) t2" by blast
      from q1 t2 assms(1) have "Q (exn_of r2) (t1 @ t2)"
        unfolding sequential_def by blast
      with Inr Some rw f t1 t2 show ?thesis by (auto simp: opt_then_def)
    qed
  qed
qed


lemma tracks_opt_mono: "(\<And>x t. Q x t \<Longrightarrow> R x t) \<Longrightarrow> tracks_opt Q m \<Longrightarrow> tracks_opt R m"
  unfolding tracks_opt_def
  by (auto split: option.splits prod.splits) blast

lemma quiet_conv2d_block: "tracks quiet (conv2d_block tf x n k)"
  unfolding conv2d_block_def by (intro quiet_rules) simp_all

lemma quiet_encoder_block: "tracks quiet (encoder_block tf x n p d)"
  unfolding encoder_block_def by (intro quiet_rules quiet_conv2d_block) simp_all

lemma quiet_encoder: "tracks quiet (encoder tf x)"
  unfolding encoder_def by (intro quiet_rules quiet_encoder_block)

lemma quiet_bottleneck: "tracks quiet (bottleneck tf x)"
  unfolding bottleneck_def by (rule quiet_conv2d_block)

lemma quiet_decoder_block: "tracks quiet (decoder_block tf x c n k st d)"
  unfolding decoder_block_def by (intro quiet_rules quiet_conv2d_block) simp_all

lemma quiet_decoder: "tracks quiet (decoder tf x convs n)"
  unfolding decoder_def by (intro quiet_rules quiet_decoder_block) simp_all

lemma quiet_unet: "tracks quiet (unet tf)"
  unfolding unet_def by (intro quiet_rules quiet_encoder quiet_bottleneck quiet_decoder) simp_all

lemma quiet_unet_notebook: "tracks quiet (unet_notebook tf)"
  unfolding unet_notebook_def by (intro quiet_rules quiet_unet) simp_all

lemma quiet_dummy_fit: "tracks quiet (dummy_fit tf st X y)"
  unfolding dummy_fit_def by (intro quiet_rules) simp_all

lemma quiet_dummy_score: "tracks quiet (dummy_score tf c X y)"
  unfolding dummy_score_def by (intro quiet_rules) simp_all

lemma quiet_baseline_notebook: "tracks quiet (baseline_notebook tf)"
  unfolding baseline_notebook_def by (intro quiet_rules quiet_dummy_fit quiet_dummy_score) simp_all

lemma quiet_Residual_init: "tracks quiet (Residual_init tf n u st)"
  unfolding Residual_init_def by (intro quiet_rules) simp_all

lemma quiet_Residual_call: "tracks quiet (Residual_call tf blk X)"
  unfolding Residual_call_def by (intro quiet_rules) simp_all

lemma quiet_Residual_block: "tracks quiet (Residual_block tf n u st X)"
  unfolding Residual_block_def by (intro quiet_rules quiet_Residual_init quiet_Residual_call)

lemma quiet_ResNet_b1: "tracks quiet (ResNet_b1 tf)"
  unfolding ResNet_b1_def by (intro quiet_rules) simp_all

lemma quiet_ResNet_block: "tracks quiet (ResNet_block tf nr nc fb)"
  unfolding ResNet_block_def by (intro quiet_rules quiet_Residual_init) simp_all

lemma quiet_ResNet_init: "tracks quiet (ResNet_init tf arch lr nc)"
  unfolding ResNet_init_def by (intro quiet_rules quiet_ResNet_b1 quiet_ResNet_block) simp_all

lemma quiet_ResNet18_init: "tracks quiet (ResNet18_init tf lr nc)"
  unfolding ResNet18_init_def by (rule quiet_ResNet_init)

lemma quiet_add_layer:
  "\<not> persistent_write (Called cls args :: 'e event) \<Longrightarrow>
     tracks quiet (add_layer (tf :: ('o, 's, 'e) tf_api) m cls args)"
  unfolding add_layer_def by (intro quiet_rules) simp_all

lemma quiet_createResNetModel: "tracks quiet (createResNetModel tf)"
  unfolding createResNetModel_def by (intro quiet_rules quiet_add_layer) simp_all

lemma quiet_resnet_notebook: "tracks quiet (resnet_notebook tf)"
  unfolding resnet_notebook_def
  by (intro quiet_rules quiet_Residual_init quiet_Residual_call quiet_ResNet18_init
      quiet_createResNetModel) simp_all



lemma quiet_WGAN_init_compile: "tracks quiet (WGAN_init_compile tf d g l ds gw dopt gopt dl gl)"
  unfolding WGAN_init_compile_def by (intro quiet_rules) simp_all

lemma quiet_interpolate: "tracks quiet (interpolate tf b r f)"
  unfolding interpolate_def by (intro quiet_rules) simp_all

lemma quiet_gradient_penalty: "tracks quiet (gradient_penalty tf self b r f)"
  unfolding gradient_penalty_def by (intro quiet_rules quiet_interpolate) simp_all

lemma quiet_discriminator_loss: "tracks quiet (discriminator_loss tf r f)"
  unfolding discriminator_loss_def by (intro quiet_rules) simp_all

lemma quiet_generator_loss: "tracks quiet (generator_loss tf f)"
  unfolding generator_loss_def by (intro quiet_rules) simp_all

lemma quiet_discriminator_step:
  assumes "\<And>r f. tracks quiet (d_loss_fn self r f)"
  shows "tracks quiet (discriminator_step tf self b x)"
  unfolding discriminator_step_def by (intro quiet_rules quiet_gradient_penalty assms) simp_all

lemma quiet_generator_step:
  assumes "\<And>f. tracks quiet (g_loss_fn self f)"
  shows "tracks quiet (generator_step tf self b)"
  unfolding generator_step_def by (intro quiet_rules assms) simp_all

lemma quiet_raise_unbound: "tracks quiet (raise (UnboundLocalError v))"
  by (simp add: tracks_def raise_def exn_of_def quiet_def)

lemma quiet_train_step:
  assumes "\<And>r f. tracks quiet (d_loss_fn self r f)" and "\<And>f. tracks quiet (g_loss_fn self f)"
  shows "tracks quiet (train_step tf self data)"
proof -
  have unpack: "tracks quiet (case data of Batch x \<Rightarrow> ret x | BatchTuple xs \<Rightarrow> index0 xs)"
    by (cases data)
       (simp_all add: tracks_ret [OF sequential_quiet] tracks_index0 [OF sequential_quiet])
  show ?thesis
    unfolding train_step_def
    by (intro quiet_rules unpack quiet_discriminator_step quiet_generator_step
        quiet_raise_unbound assms) simp_all
qed

lemma quiet_conv_block: "tracks quiet (conv_block tf x f a k st p ub bn dr dv)"
  unfolding conv_block_def by (intro quiet_rules) simp_all

lemma quiet_discriminator_stage: "tracks quiet (discriminator_stage tf x f dr)"
  unfolding discriminator_stage_def by (intro quiet_rules quiet_conv_block) simp_all

lemma quiet_get_discriminator_model: "tracks quiet (get_discriminator_model tf)"
  unfolding get_discriminator_model_def by (intro quiet_rules quiet_discriminator_stage) simp_all

lemma quiet_upsample_block: "tracks quiet (upsample_block tf x f a k st up p bn ub dr dv)"
  unfolding upsample_block_def by (intro quiet_rules) simp_all

lemma quiet_generator_stage: "tracks quiet (generator_stage tf x f a)"
  unfolding generator_stage_def by (rule quiet_upsample_block)

lemma quiet_get_generator_model: "tracks quiet (get_generator_model tf)"
  unfolding get_generator_model_def by (intro quiet_rules quiet_generator_stage) simp_all






lemma quiet_detect_bounding_box: "tracks quiet (detect_bounding_box cv fc vid)"
  unfolding detect_bounding_box_def by (intro quiet_rules) simp_all

lemma quiet_detection_body: "tracks quiet (detection_body cv fc vc)"
  unfolding detection_body_def by (intro quiet_rules quiet_detect_bounding_box) simp_all

lemma quiet_detection_cell: "tracks_opt quiet (detection_cell n cv fc vc)"
  unfolding detection_cell_def
  by (intro tracks_opt_then [OF sequential_quiet] tracks_while_true [OF sequential_quiet]
      quiet_detection_body quiet_rules) simp_all




lemma nat_of_digits_snoc: "nat_of_digits (cs @ [c]) = 10 * nat_of_digits cs + (of_char c - 48)"
  by (induction cs) (simp_all add: algebra_simps)

lemma nat_of_digits_str_nat: "nat_of_digits (str_nat n) = n"
proof (induction n rule: str_nat.induct)
  case (1 n)
  show ?case
  proof (cases "n < 10")
    case True
    then show ?thesis by (subst str_nat.simps) simp
  next
    case False
    have "n mod 10 < 10" by simp
    then have d: "(48 + n mod 10) mod 256 = 48 + n mod 10" by simp
    from False 1 have "nat_of_digits (str_nat (n div 10)) = n div 10" by simp
    with False d show ?thesis
      by (subst str_nat.simps) (simp add: nat_of_digits_snoc)
  qed
qed

lemma str_nat_inj: "str_nat m = str_nat n \<Longrightarrow> m = n"
  by (metis nat_of_digits_str_nat)

lemma image_name_inj:
  assumes "0 \<le> i" and "0 \<le> j" and "image_name i epoch = image_name j epoch"
  shows "i = j"
proof -
  from assms have "str_nat (nat i) = str_nat (nat j)"
    by (simp add: image_name_def str_int_def)
  then have "nat i = nat j" by (rule str_nat_inj)
  with assms(1,2) show ?thesis by simp
qed

lemma distinct_image_names: "distinct (map (\<lambda>i. image_name i epoch) (py_range n))"
proof -
  have "inj_on (\<lambda>i. image_name i epoch) (set (py_range n))"
  proof (rule inj_onI)
    fix i j
    assume "i \<in> set (py_range n)" and "j \<in> set (py_range n)"
    then have "0 \<le> i" and "0 \<le> j" by (auto simp: py_range_def)
    moreover assume "image_name i epoch = image_name j epoch"
    ultimately show "i = j" by (rule image_name_inj)
  qed
  moreover have "distinct (py_range n)"
    by (simp add: py_range_def distinct_map inj_on_def)
  ultimately show ?thesis by (simp add: distinct_map)
qed

lemma emits_denormalize:
  "emits (denormalize tf x) [Called ''__mul__'' [PyFloat 127.5], Called ''__add__'' [PyFloat 127.5]]"
  unfolding denormalize_def by (intro emits_steps)

lemma emits_save_image: "emits (save_image tf imgs epoch i) (save_image_events epoch i)"
  unfolding save_image_def save_image_events_def by (intro emits_steps)

lemma emits_on_epoch_end: "emits (on_epoch_end tf self model epoch) (on_epoch_end_events self epoch)"
  unfolding on_epoch_end_def on_epoch_end_events_def
  by (intro emits_seq_cons [OF emits_tf_call] emits_seq [OF emits_denormalize] emits_for_in
      emits_save_image)

lemma saved_files_append: "saved_files (s @ t) = saved_files s @ saved_files t"
  by (induction s rule: saved_files.induct) (auto split: list.splits arg.splits)

lemma saved_files_concat:
  "saved_files (concat (map (save_image_events epoch) is) :: 'e event list)
     = map (\<lambda>i. image_name i epoch) is"
  by (induction "is") (simp_all add: saved_files_append, simp add: save_image_events_def)

lemma saved_files_on_epoch_end:
  "saved_files (on_epoch_end_events self epoch :: 'e event list)
     = map (\<lambda>i. image_name i epoch) (py_range (num_img self))"
  by (simp add: on_epoch_end_events_def saved_files_append saved_files_concat)

lemma quiet_no_write: "tracks quiet m \<Longrightarrow> writes_no_file m"
  unfolding writes_no_file_def by (rule tracks_mono [of quiet]) (simp add: quiet_def no_write_def)

lemma quiet_no_write_opt: "tracks_opt quiet m \<Longrightarrow> writes_no_file_opt m"
  unfolding writes_no_file_opt_def
  by (rule tracks_opt_mono [of quiet]) (simp add: quiet_def no_write_def)

text \<open>
  C3 (amended). Not every notebook has the four steps. The baseline-classifier notebook
  and the WGAN-GP notebook load a dataset, construct a model, train it and print or
  display results, in this order. The U-Net notebook and the ResNet notebook load no
  dataset and train or run nothing on data: they construct models from the framework's
  layers and print summaries and shapes. The face-detection notebook loads no dataset
  and constructs no model: for each camera frame it runs a pre-trained classifier and
  displays the frame.
\<close>

theorem notebook_pipelines:
  "completed_phases (baseline_notebook sym_tf w0)
     = Some [LoadData, BuildModel, TrainOrRun, Display, TrainOrRun, Display,
             BuildModel, TrainOrRun, Display, BuildModel, TrainOrRun, Display]
   \<and> in_order [LoadData, BuildModel, TrainOrRun, Display]
        [LoadData, BuildModel, TrainOrRun, Display, TrainOrRun, Display,
         BuildModel, TrainOrRun, Display, BuildModel, TrainOrRun, Display]
   \<and> completed_phases (wgan_notebook sym_tf w0)
     = Some [LoadData, Display, BuildModel, Display, BuildModel, Display, TrainOrRun, Display]
   \<and> in_order [LoadData, BuildModel, TrainOrRun, Display]
        [LoadData, Display, BuildModel, Display, BuildModel, Display, TrainOrRun, Display]
   \<and> completed_phases (unet_notebook sym_tf w0) = Some [BuildModel, Display]
   \<and> completed_phases (resnet_notebook sym_tf w0)
     = Some [BuildModel, Display, BuildModel, Display, BuildModel, Display, BuildModel, Display]
   \<and> Option.bind (face_notebook 3 (toy_cv True) camera) completed_phases
     = Some [TrainOrRun, Display, TrainOrRun, Display]"
  by code_simp

text \<open>
  The U-Net notebook has called no dataset loader and no training or inference
  function when it ends: its calls construct the model and print the summary.
\<close>

theorem unet_notebook_no_pipeline:
  "\<not> four_step_pipeline (trace (snd (unet_notebook sym_tf w0)))"
  by code_simp



text \<open>
  C6 (amended). At the end of every epoch \<open>GANMonitor.on_epoch_end\<close> saves exactly
  \<open>num_img\<close> images, under the pairwise different names \<open>generated_img_{i}_{epoch}.png\<close>
  for \<open>i\<close> from 0 to \<open>num_img - 1\<close>, each one a row of the generator's output
  multiplied by 127.5 and increased by 127.5. No other function or method of the
  repository writes a file, and neither do the cells of the baseline, ResNet and U-Net
  notebooks. The PNG files are not all that the notebooks write: the first cell of the
  face-detection notebook installs a package with \<open>%pip install\<close>, and the data cell
  of the WGAN-GP notebook downloads Fashion-MNIST through \<open>fashion_mnist.load_data\<close>.
\<close>

theorem on_epoch_end_saves:
  "emits (on_epoch_end tf mon self epoch) (on_epoch_end_events mon epoch)
   \<and> saved_files (on_epoch_end_events mon epoch :: 'e event list)
       = map (\<lambda>i. image_name i epoch) (py_range (num_img mon))
   \<and> length (py_range (num_img mon)) = nat (num_img mon)
   \<and> distinct (map (\<lambda>i. image_name i epoch) (py_range (num_img mon)))
   \<and> writes_no_file (train_step tf (self\<lparr>d_loss_fn := discriminator_loss tf, g_loss_fn := generator_loss tf\<rparr>) data)
   \<and> writes_no_file (gradient_penalty tf self b r f)
   \<and> writes_no_file (discriminator_loss tf r f)
   \<and> writes_no_file (generator_loss tf f)
   \<and> writes_no_file (WGAN_init_compile tf D G l ds gw dopt gopt dl gl)
   \<and> writes_no_file (get_discriminator_model tf)
   \<and> writes_no_file (get_generator_model tf)
   \<and> writes_no_file (detect_bounding_box cv fc vid)
   \<and> writes_no_file_opt (detection_cell n cv fc vc)
   \<and> writes_no_file (unet_notebook tf)
   \<and> writes_no_file (resnet_notebook tf)
   \<and> writes_no_file (baseline_notebook tf)
   \<and> filter persistent_write (trace (snd (wgan_notebook sym_tf w0)))
       = [Called ''fashion_mnist.load_data'' []]
   \<and> map_option (\<lambda>rw. filter persistent_write (trace (snd rw))) (face_notebook 3 (toy_cv True) camera)
       = Some [Called ''%pip install'' [PyStr ''opencv-python'']]"
proof -
  have a: "filter persistent_write (trace (snd (wgan_notebook sym_tf w0)))
       = [Called ''fashion_mnist.load_data'' []]"
    by code_simp
  have b: "map_option (\<lambda>rw. filter persistent_write (trace (snd rw))) (face_notebook 3 (toy_cv True) camera)
       = Some [Called ''%pip install'' [PyStr ''opencv-python'']]"
    by code_simp
  have c: "writes_no_file (train_step tf (self\<lparr>d_loss_fn := discriminator_loss tf, g_loss_fn := generator_loss tf\<rparr>) data)"
    by (rule quiet_no_write, rule quiet_train_step) (simp_all add: quiet_discriminator_loss quiet_generator_loss)
  show ?thesis
    by (intro conjI a b c emits_on_epoch_end saved_files_on_epoch_end distinct_image_names
        length_py_range quiet_no_write quiet_no_write_opt quiet_gradient_penalty
        quiet_discriminator_loss quiet_generator_loss quiet_WGAN_init_compile
        quiet_get_discriminator_model quiet_get_generator_model quiet_detect_bounding_box
        quiet_detection_cell quiet_unet_notebook quiet_resnet_notebook quiet_baseline_notebook)
qed

text \<open>
  The callback with \<open>num_img = 2\<close> at the end of epoch 7, on a library that keeps what
  \<open>img.save\<close> is given.
\<close>

theorem on_epoch_end_saves_witness:
  "on_epoch_end saving_tf \<lparr>num_img = 2, monitor_latent_dim = 128\<rparr> saving_wgan 7
       \<lparr>trace = [], store = (0, [])\<rparr>
     = (Inr (),
        \<lparr>trace = on_epoch_end_events \<lparr>num_img = 2, monitor_latent_dim = 128\<rparr> 7,
         store = (12,
           [Res 6 ''keras.preprocessing.image.array_to_img''
             [Res 5 ''numpy''
               [Res 4 ''__getitem__''
                 [Res 3 ''__add__''
                   [Res 2 ''__mul__''
                     [Res 1 ''self.model.generator''
                       [Var ''G'',
                        Res 0 ''tf.random.normal'' [] [Kw ''shape'' (PyTuple [PyInt 2, PyInt 128])]]
                       []]
                     [PyFloat 127.5]]
                   [PyFloat 127.5]]
                 [PyInt 0]]
               []]
             [],
            Res 10 ''keras.preprocessing.image.array_to_img''
             [Res 9 ''numpy''
               [Res 8 ''__getitem__''
                 [Res 3 ''__add__''
                   [Res 2 ''__mul__''
                     [Res 1 ''self.model.generator''
                       [Var ''G'',
                        Res 0 ''tf.random.normal'' [] [Kw ''shape'' (PyTuple [PyInt 2, PyInt 128])]]
                       []]
                     [PyFloat 127.5]]
                   [PyFloat 127.5]]
                 [PyInt 1]]
               []]
             []])\<rparr>)
   \<and> saved_files (on_epoch_end_events \<lparr>num_img = 2, monitor_latent_dim = 128\<rparr> 7 :: unit event list)
       = [''generated_img_0_7.png'', ''generated_img_1_7.png'']"
proof -
  let ?mon = "\<lparr>num_img = 2, monitor_latent_dim = 128\<rparr>"
  let ?w = "\<lparr>trace = [], store = (0::int, [] :: sym list)\<rparr> :: (int \<times> sym list, unit) world"
  have run: "\<not> isl (fst (on_epoch_end saving_tf ?mon saving_wgan 7 ?w))"
    by code_simp
  have st: "store (snd (on_epoch_end saving_tf ?mon saving_wgan 7 ?w)) = (12,
           [Res 6 ''keras.preprocessing.image.array_to_img''
             [Res 5 ''numpy''
               [Res 4 ''__getitem__''
                 [Res 3 ''__add__''
                   [Res 2 ''__mul__''
                     [Res 1 ''self.model.generator''
                       [Var ''G'',
                        Res 0 ''tf.random.normal'' [] [Kw ''shape'' (PyTuple [PyInt 2, PyInt 128])]]
                       []]
                     [PyFloat 127.5]]
                   [PyFloat 127.5]]
                 [PyInt 0]]
               []]
             [],
            Res 10 ''keras.preprocessing.image.array_to_img''
             [Res 9 ''numpy''
               [Res 8 ''__getitem__''
                 [Res 3 ''__add__''
                   [Res 2 ''__mul__''
                     [Res 1 ''self.model.generator''
                       [Var ''G'',
                        Res 0 ''tf.random.normal'' [] [Kw ''shape'' (PyTuple [PyInt 2, PyInt 128])]]
                       []]
                     [PyFloat 127.5]]
                   [PyFloat 127.5]]
                 [PyInt 1]]
               []]
             []])"
    by code_simp
  obtain r w' where rw: "on_epoch_end saving_tf ?mon saving_wgan 7 ?w = (r, w')"
    by (cases "on_epoch_end saving_tf ?mon saving_wgan 7 ?w")
  with run have r: "r = Inr ()" by (cases r) auto
  have "emits (on_epoch_end saving_tf ?mon saving_wgan 7) (on_epoch_end_events ?mon 7)"
    by (rule on_epoch_end_saves [THEN conjunct1])
  with rw r have tr: "trace w' = on_epoch_end_events ?mon 7"
    unfolding emits_def by fastforce
  have "saved_files (on_epoch_end_events ?mon 7 :: unit event list)
      = map (\<lambda>i. image_name i 7) (py_range (num_img ?mon))"
    by (rule on_epoch_end_saves [THEN conjunct2, THEN conjunct1])
  moreover have "map (\<lambda>i. image_name i 7) (py_range (num_img ?mon))
      = [''generated_img_0_7.png'', ''generated_img_1_7.png'']"
    by code_simp
  ultimately have names: "saved_files (on_epoch_end_events ?mon 7 :: unit event list)
      = [''generated_img_0_7.png'', ''generated_img_1_7.png'']"
    by simp
  from st rw have "store w' = (12,
           [Res 6 ''keras.preprocessing.image.array_to_img''
             [Res 5 ''numpy''
               [Res 4 ''__getitem__''
                 [Res 3 ''__add__''
                   [Res 2 ''__mul__''
                     [Res 1 ''self.model.generator''
                       [Var ''G'',
                        Res 0 ''tf.random.normal'' [] [Kw ''shape'' (PyTuple [PyInt 2, PyInt 128])]]
                       []]
                     [PyFloat 127.5]]
                   [PyFloat 127.5]]
                 [PyInt 0]]
               []]
             [],
            Res 10 ''keras.preprocessing.image.array_to_img''
             [Res 9 ''numpy''
               [Res 8 ''__getitem__''
                 [Res 3 ''__add__''
                   [Res 2 ''__mul__''
                     [Res 1 ''self.model.generator''
                       [Var ''G'',
                        Res 0 ''tf.random.normal'' [] [Kw ''shape'' (PyTuple [PyInt 2, PyInt 128])]]
                       []]
                     [PyFloat 127.5]]
                   [PyFloat 127.5]]
                 [PyInt 1]]
               []]
             []])"
    by simp
  with tr have "w' = \<lparr>trace = on_epoch_end_events ?mon 7, store = (12,
           [Res 6 ''keras.preprocessing.image.array_to_img''
             [Res 5 ''numpy''
               [Res 4 ''__getitem__''
                 [Res 3 ''__add__''
                   [Res 2 ''__mul__''
                     [Res 1 ''self.model.generator''
                       [Var ''G'',
                        Res 0 ''tf.random.normal'' [] [Kw ''shape'' (PyTuple [PyInt 2, PyInt 128])]]
                       []]
                     [PyFloat 127.5]]
                   [PyFloat 127.5]]
                 [PyInt 0]]
               []]
             [],
            Res 10 ''keras.preprocessing.image.array_to_img''
             [Res 9 ''numpy''
               [Res 8 ''__getitem__''
                 [Res 3 ''__add__''
                   [Res 2 ''__mul__''
                     [Res 1 ''self.model.generator''
                       [Var ''G'',
                        Res 0 ''tf.random.normal'' [] [Kw ''shape'' (PyTuple [PyInt 2, PyInt 128])]]
                       []]
                     [PyFloat 127.5]]
                   [PyFloat 127.5]]
                 [PyInt 1]]
               []]
             []])\<rparr>"
    by (cases w') simp
  with rw r names show ?thesis by simp
qed

text \<open>
  The face-detection notebook, run on a camera that delivers two frames: its first
  call installs a package, which is persistent data that is not a PNG file of
  \<open>on_epoch_end\<close>.
\<close>

theorem face_notebook_installs_package:
  "map_option (\<lambda>rw. (fst rw, hd (trace (snd rw)))) (face_notebook 3 (toy_cv True) camera)
     = Some (Inr (), Called ''%pip install'' [PyStr ''opencv-python''])
   \<and> persistent_write (Called ''%pip install'' [PyStr ''opencv-python''] :: string event)
   \<and> saved_files [Called ''%pip install'' [PyStr ''opencv-python''] :: string event] = []"
  by code_simp

end
